theory Spec2Isabelle
  imports Main "HOL-Library.Char_ord" "HOL-Library.List_Lexorder"
begin

section \<open>Values, errors and control outcomes\<close>

text \<open>
  A key reaches the backend as the text \<open>key.String()\<close>; a value is a Go byte slice.
  Go distinguishes the nil slice from an empty one, so a value handed to \<open>Put\<close> is a
  \<open>bytes option\<close>: \<open>None\<close> is nil, \<open>Some []\<close> is a present slice of length 0.
\<close>

type_synonym key = string
type_synonym bytes = string

text \<open>
  Errors the backend layer (database/sql over the driver) hands back, and the errors the
  package returns. \<open>ErrInvalidType\<close> is the package's own variable (part\_000 line 14),
  \<open>ErrNotFound\<close> is \<open>ds.ErrNotFound\<close>; every other error is the backend's, passed on
  unchanged. Go compares errors by identity, so the backend can never produce the first two.
\<close>

datatype backend_error = ErrTxDone | ErrNoRows | DriverError string

datatype error = ErrInvalidType | ErrNotFound | BackendError backend_error

text \<open>
  How a Go call ends: it returns, it panics with a value, or the process exits
  (\<open>log.Fatal\<close>).
\<close>

datatype 'a go = Return 'a | Panic string | Exit string

section \<open>The query provider (sql\_kv\_ds.go)\<close>

text \<open>
  The interface \<open>Queries\<close> (part\_000 lines 17-27): nine methods without arguments
  returning text, so an interface value is the record of the nine texts.
\<close>

record Queries =
  Queries_Delete :: string
  Queries_Exists :: string
  Queries_Get :: string
  Queries_Put :: string
  Queries_Query :: string
  Queries_Prefix :: string
  Queries_Limit :: string
  Queries_Offset :: string
  Queries_GetSize :: string

text \<open>The struct \<open>queries\<close> and its methods (sql\_kv\_ds.go lines 20-62).\<close>

definition queries_Delete :: "string \<Rightarrow> string" where
  "queries_Delete tableName = ''DELETE FROM '' @ tableName @ '' WHERE key = $1''"

definition queries_Exists :: "string \<Rightarrow> string" where
  "queries_Exists tableName =
     ''SELECT exists(SELECT 1 FROM '' @ tableName @ '' WHERE key=$1)''"

definition queries_Get :: "string \<Rightarrow> string" where
  "queries_Get tableName = ''SELECT data FROM '' @ tableName @ '' WHERE key = $1''"

definition queries_Put :: "string \<Rightarrow> string" where
  "queries_Put tableName =
     ''INSERT INTO '' @ tableName @
     '' (key, data) SELECT $1, $2 WHERE NOT EXISTS ( SELECT key FROM '' @ tableName @
     '' WHERE key = $1)''"

definition queries_Query :: "string \<Rightarrow> string" where
  "queries_Query tableName = ''SELECT key, data FROM '' @ tableName"

definition queries_Prefix :: "string \<Rightarrow> string" where
  "queries_Prefix tableName = '' WHERE key LIKE '%s%%' ORDER BY key''"

definition queries_Limit :: "string \<Rightarrow> string" where
  "queries_Limit tableName = '' LIMIT %d''"

definition queries_Offset :: "string \<Rightarrow> string" where
  "queries_Offset tableName = '' OFFSET %d''"

definition queries_GetSize :: "string \<Rightarrow> string" where
  "queries_GetSize tableName =
     ''SELECT octet_length(data) FROM '' @ tableName @ '' WHERE key = $1''"

definition newQueries :: "string \<Rightarrow> Queries" where
  "newQueries tableName =
     \<lparr> Queries_Delete = queries_Delete tableName,
       Queries_Exists = queries_Exists tableName,
       Queries_Get = queries_Get tableName,
       Queries_Put = queries_Put tableName,
       Queries_Query = queries_Query tableName,
       Queries_Prefix = queries_Prefix tableName,
       Queries_Limit = queries_Limit tableName,
       Queries_Offset = queries_Offset tableName,
       Queries_GetSize = queries_GetSize tableName \<rparr>"

section \<open>Text formatting (fmt.Sprintf)\<close>

text \<open>
  \<open>QueryWithParams\<close> renders each clause with \<open>fmt.Sprintf(template, operand)\<close>, one
  operand per call. The model covers the verbs the dialect uses, \<open>%s\<close> on a string,
  \<open>%d\<close> on an int, \<open>%v\<close> on either and \<open>%%\<close>, and Go's documented error
  markers: \<open>%!c(type=value)\<close> for a verb that does not fit the operand,
  \<open>%!c(MISSING)\<close> for a verb after the operand is used up, \<open>%!(NOVERB)\<close> for a
  final \<open>%\<close> and \<open>%!(EXTRA type=value)\<close> for an operand no verb used. Flags, widths
  and the other verbs of fmt are outside the model (they are rendered as a verb that does
  not fit).
\<close>

datatype fmt_arg = ArgS string | ArgI int

function show_nat :: "nat \<Rightarrow> string" where
  "show_nat n =
     (if n < 10 then [char_of (48 + n)]
      else show_nat (n div 10) @ [char_of (48 + n mod 10)])"
  by pat_completeness auto
termination
  by (relation "measure id") auto

definition show_int :: "int \<Rightarrow> string" where
  "show_int i = (if i < 0 then CHR ''-'' # show_nat (nat (- i)) else show_nat (nat i))"

definition fmt_operand :: "fmt_arg \<Rightarrow> string" where
  "fmt_operand a = (case a of ArgS s \<Rightarrow> ''string='' @ s | ArgI i \<Rightarrow> ''int='' @ show_int i)"

definition fmt_verb :: "char \<Rightarrow> fmt_arg \<Rightarrow> string" where
  "fmt_verb v a =
     (case a of
        ArgS s \<Rightarrow>
          if v = CHR ''s'' \<or> v = CHR ''v'' then s
          else ''%!'' @ [v] @ ''('' @ fmt_operand a @ '')''
      | ArgI i \<Rightarrow>
          if v = CHR ''d'' \<or> v = CHR ''v'' then show_int i
          else ''%!'' @ [v] @ ''('' @ fmt_operand a @ '')'')"

fun fmt_run :: "string \<Rightarrow> fmt_arg option \<Rightarrow> string" where
  "fmt_run [] None = []"
| "fmt_run [] (Some a) = ''%!(EXTRA '' @ fmt_operand a @ '')''"
| "fmt_run [c] a =
     (if c = CHR ''%'' then ''%!(NOVERB)'' @ fmt_run [] a else c # fmt_run [] a)"
| "fmt_run (c # v # cs) a =
     (if c \<noteq> CHR ''%'' then c # fmt_run (v # cs) a
      else if v = CHR ''%'' then CHR ''%'' # fmt_run cs a
      else (case a of
              None \<Rightarrow> ''%!'' @ [v] @ ''(MISSING)'' @ fmt_run cs None
            | Some x \<Rightarrow> fmt_verb v x @ fmt_run cs None))"

definition Sprintf :: "string \<Rightarrow> fmt_arg \<Rightarrow> string" where
  "Sprintf format a = fmt_run format (Some a)"

section \<open>The backend: database/sql over PostgreSQL\<close>

text \<open>
  The backend is outside the repository; the package only calls it. Its model is one table
  of (key, data) rows in physical order (the schema of \<open>CreatePostgres\<close>: key unique,
  data not null), the record of the calls that reached it, and a script of what the
  environment answers to the next calls: \<open>Ok\<close> (the statement runs), \<open>Fails\<close> (the
  driver reports an error, for instance a lost connection), \<open>Breaks n\<close> (the connection
  is lost while the answer is delivered, after \<open>n\<close> rows) or \<open>Panics\<close>. An empty
  script is a healthy backend. Every call that reaches the backend is appended to
  \<open>calls\<close> and takes the next answer of the script.
\<close>

datatype call =
    CallBegin
  | CallExec string "string list"
  | CallTxExec string "string list"
  | CallQueryRow string "string list"
  | CallQuery string
  | CallCommit
  | CallRollback

datatype outcome = Ok | Fails string | Breaks nat string | Panics string

record DB =
  tname :: string
  rows :: "(key \<times> bytes) list"
  script :: "outcome list"
  calls :: "call list"

fun next_outcome :: "outcome list \<Rightarrow> outcome \<times> outcome list" where
  "next_outcome [] = (Ok, [])"
| "next_outcome (x # xs) = (x, xs)"

definition reach :: "call \<Rightarrow> DB \<Rightarrow> outcome \<times> DB" where
  "reach c s =
     (case next_outcome (script s) of
        (x, sc) \<Rightarrow> (x, s\<lparr>script := sc, calls := calls s @ [c]\<rparr>))"

subsection \<open>Reading SQL text\<close>

text \<open>
  The backend knows nothing of the package: it is handed a text and reads it. The reader
  below covers a small part of PostgreSQL's SQL over the two-column table, with the
  keywords in upper case (\<open>EXISTS\<close> also in lower case) and single spaces between
  words (optional inside parentheses and around \<open>=\<close>); any other text is refused, as
  a syntax error would be. It is independent of the texts the query provider returns, so
  what a statement of the provider does is derived from its text, not assumed.

  The pieces: a parameter \<open>$n\<close>; a select item, which is \<open>key\<close>, \<open>data\<close>, \<open>1\<close>, a
  parameter, or \<open>octet_length(item)\<close>; the condition \<open>key = $n\<close> (spaces around \<open>=\<close>
  optional); a sub-select \<open>SELECT item FROM t [WHERE key = $n]\<close> over the backend's own
  table \<open>t\<close>; and \<open>EXISTS ( sub-select )\<close>.
\<close>

fun strip_prefix :: "string \<Rightarrow> string \<Rightarrow> string option" where
  "strip_prefix [] s = Some s"
| "strip_prefix (p # ps) [] = None"
| "strip_prefix (p # ps) (c # cs) = (if p = c then strip_prefix ps cs else None)"

definition skip_spaces :: "string \<Rightarrow> string" where
  "skip_spaces s = dropWhile (\<lambda>c. c = CHR '' '') s"

definition is_digit :: "char \<Rightarrow> bool" where
  "is_digit c = (CHR ''0'' \<le> c \<and> c \<le> CHR ''9'')"

definition parse_param :: "string \<Rightarrow> (nat \<times> string) option" where
  "parse_param s =
     (case strip_prefix ''$'' s of
        None \<Rightarrow> None
      | Some r \<Rightarrow>
          (let ds = takeWhile is_digit r
           in if ds = [] then None
              else Some (foldl (\<lambda>a c. 10 * a + (of_char c - 48)) (0::nat) ds,
                         dropWhile is_digit r)))"

datatype sel_item = IKey | IData | IOne | IParam nat | IOctetLength sel_item

definition parse_plain_item :: "string \<Rightarrow> (sel_item \<times> string) option" where
  "parse_plain_item s =
     (case strip_prefix ''key'' s of
        Some r \<Rightarrow> Some (IKey, r)
      | None \<Rightarrow>
          (case strip_prefix ''data'' s of
             Some r \<Rightarrow> Some (IData, r)
           | None \<Rightarrow>
               (case strip_prefix ''1'' s of
                  Some r \<Rightarrow> Some (IOne, r)
                | None \<Rightarrow>
                    (case parse_param s of
                       Some (n, r) \<Rightarrow> Some (IParam n, r)
                     | None \<Rightarrow> None))))"

definition parse_item :: "string \<Rightarrow> (sel_item \<times> string) option" where
  "parse_item s =
     (case strip_prefix ''octet_length('' s of
        None \<Rightarrow> parse_plain_item s
      | Some r \<Rightarrow>
          (case parse_plain_item r of
             None \<Rightarrow> None
           | Some (i, r1) \<Rightarrow>
               (case strip_prefix '')'' r1 of
                  None \<Rightarrow> None
                | Some r2 \<Rightarrow> Some (IOctetLength i, r2))))"

definition parse_pair :: "string \<Rightarrow> ((sel_item \<times> sel_item) \<times> string) option" where
  "parse_pair s =
     (case parse_item s of
        None \<Rightarrow> None
      | Some (i1, r1) \<Rightarrow>
          (case strip_prefix '', '' r1 of
             None \<Rightarrow> None
           | Some r2 \<Rightarrow>
               (case parse_item r2 of
                  None \<Rightarrow> None
                | Some (i2, r3) \<Rightarrow> Some ((i1, i2), r3))))"

definition parse_key_eq :: "string \<Rightarrow> (nat \<times> string) option" where
  "parse_key_eq s =
     (case strip_prefix ''key'' s of
        None \<Rightarrow> None
      | Some r \<Rightarrow>
          (case strip_prefix ''='' (skip_spaces r) of
             None \<Rightarrow> None
           | Some r1 \<Rightarrow> parse_param (skip_spaces r1)))"

definition key_clause :: "string \<Rightarrow> (nat option \<times> string) option" where
  "key_clause s =
     (case strip_prefix '' WHERE '' s of
        None \<Rightarrow> Some (None, s)
      | Some r \<Rightarrow>
          (case parse_key_eq r of
             None \<Rightarrow> None
           | Some (n, r1) \<Rightarrow> Some (Some n, r1)))"

definition parse_subselect :: "string \<Rightarrow> string \<Rightarrow> ((sel_item \<times> nat option) \<times> string) option" where
  "parse_subselect t s =
     (case strip_prefix ''SELECT '' s of
        None \<Rightarrow> None
      | Some r \<Rightarrow>
          (case parse_item r of
             None \<Rightarrow> None
           | Some (i, r1) \<Rightarrow>
               (case strip_prefix ('' FROM '' @ t) r1 of
                  None \<Rightarrow> None
                | Some r2 \<Rightarrow>
                    (case key_clause r2 of
                       None \<Rightarrow> None
                     | Some (w, r3) \<Rightarrow> Some ((i, w), r3)))))"

definition parse_exists :: "string \<Rightarrow> string \<Rightarrow> ((sel_item \<times> nat option) \<times> string) option" where
  "parse_exists t s =
     (case (case strip_prefix ''EXISTS'' s of
              Some r \<Rightarrow> Some r
            | None \<Rightarrow> strip_prefix ''exists'' s) of
        None \<Rightarrow> None
      | Some r \<Rightarrow>
          (case strip_prefix ''('' (skip_spaces r) of
             None \<Rightarrow> None
           | Some r1 \<Rightarrow>
               (case parse_subselect t (skip_spaces r1) of
                  None \<Rightarrow> None
                | Some (q, r2) \<Rightarrow>
                    (case strip_prefix '')'' (skip_spaces r2) of
                       None \<Rightarrow> None
                     | Some r3 \<Rightarrow> Some (q, r3)))))"

text \<open>
  The value of parameter \<open>$n\<close> among the arguments of the call, and the rows a condition
  \<open>key = $n\<close> selects (all rows when there is no condition). A parameter that has no
  argument makes the statement fail.
\<close>

definition param :: "string list \<Rightarrow> nat \<Rightarrow> string option" where
  "param args n = (if 0 < n \<and> n \<le> length args then Some (args ! (n - 1)) else None)"

definition matching :: "string list \<Rightarrow> nat option \<Rightarrow> (key \<times> bytes) list \<Rightarrow> (key \<times> bytes) list option" where
  "matching args w rs =
     (case w of
        None \<Rightarrow> Some rs
      | Some n \<Rightarrow>
          (case param args n of
             None \<Rightarrow> None
           | Some k \<Rightarrow> Some (filter (\<lambda>r. fst r = k) rs)))"

subsection \<open>Statements that change rows\<close>

text \<open>
  \<open>INSERT INTO t (key, data)\<close> followed by its source, and \<open>DELETE FROM t [WHERE key = $n]\<close>.
  The source of an insert is either \<open>SELECT item, item [WHERE [NOT] EXISTS ( sub-select )]\<close>,
  a select without a table, which yields its one row when the guard holds and no row
  otherwise, or \<open>VALUES (item, item)\<close>, optionally with
  \<open>ON CONFLICT (key) DO NOTHING\<close> or \<open>ON CONFLICT (key) DO UPDATE SET data = ...\<close>
  (a parameter or \<open>EXCLUDED.data\<close>). The items of a source are parameters: a source has no
  columns to read. The key column is unique: inserting a key that has a row fails unless
  an \<open>ON CONFLICT\<close> clause says what to do instead. Every statement reports the number
  of rows it affected.
\<close>

datatype guard = NotExists sel_item "nat option" | IfExists sel_item "nat option"

datatype conflict = OnConflictError | OnConflictNothing | OnConflictUpdate "nat option"

datatype exec_stmt =
    InsertSelect sel_item sel_item "guard option"
  | InsertValues sel_item sel_item conflict
  | DeleteWhere "nat option"

definition parse_guard :: "string \<Rightarrow> string \<Rightarrow> (guard option \<times> string) option" where
  "parse_guard t s =
     (case strip_prefix '' WHERE '' s of
        None \<Rightarrow> Some (None, s)
      | Some r \<Rightarrow>
          (case strip_prefix ''NOT '' r of
             Some r1 \<Rightarrow>
               (case parse_exists t r1 of
                  None \<Rightarrow> None
                | Some (q, r2) \<Rightarrow> Some (Some (NotExists (fst q) (snd q)), r2))
           | None \<Rightarrow>
               (case parse_exists t r of
                  None \<Rightarrow> None
                | Some (q, r2) \<Rightarrow> Some (Some (IfExists (fst q) (snd q)), r2))))"

definition parse_conflict :: "string \<Rightarrow> conflict option" where
  "parse_conflict s =
     (if s = [] then Some OnConflictError
      else if s = '' ON CONFLICT (key) DO NOTHING'' then Some OnConflictNothing
      else
        (case strip_prefix '' ON CONFLICT (key) DO UPDATE SET data = '' s of
           None \<Rightarrow> None
         | Some r \<Rightarrow>
             if r = ''EXCLUDED.data'' \<or> r = ''excluded.data'' then Some (OnConflictUpdate None)
             else
               (case parse_param r of
                  None \<Rightarrow> None
                | Some (n, r1) \<Rightarrow> if r1 = [] then Some (OnConflictUpdate (Some n)) else None)))"

definition parse_source :: "string \<Rightarrow> string \<Rightarrow> exec_stmt option" where
  "parse_source t s =
     (case strip_prefix ''SELECT '' s of
        Some r \<Rightarrow>
          (case parse_pair r of
             None \<Rightarrow> None
           | Some (is, r1) \<Rightarrow>
               (case parse_guard t r1 of
                  None \<Rightarrow> None
                | Some (g, r2) \<Rightarrow>
                    if r2 = [] then Some (InsertSelect (fst is) (snd is) g) else None))
      | None \<Rightarrow>
          (case strip_prefix ''VALUES ('' s of
             None \<Rightarrow> None
           | Some r \<Rightarrow>
               (case parse_pair r of
                  None \<Rightarrow> None
                | Some (is, r1) \<Rightarrow>
                    (case strip_prefix '')'' r1 of
                       None \<Rightarrow> None
                     | Some r2 \<Rightarrow>
                         (case parse_conflict r2 of
                            None \<Rightarrow> None
                          | Some c \<Rightarrow> Some (InsertValues (fst is) (snd is) c))))))"

definition parse_exec :: "string \<Rightarrow> string \<Rightarrow> exec_stmt option" where
  "parse_exec t stmt =
     (case strip_prefix (''INSERT INTO '' @ t @ '' (key, data) '') stmt of
        Some r \<Rightarrow> parse_source t r
      | None \<Rightarrow>
          (case strip_prefix (''DELETE FROM '' @ t) stmt of
             None \<Rightarrow> None
           | Some r \<Rightarrow>
               (case key_clause r of
                  None \<Rightarrow> None
                | Some (w, r1) \<Rightarrow> if r1 = [] then Some (DeleteWhere w) else None)))"

definition source_value :: "string list \<Rightarrow> sel_item \<Rightarrow> string option" where
  "source_value args i = (case i of IParam n \<Rightarrow> param args n | _ \<Rightarrow> None)"

definition guard_holds :: "string list \<Rightarrow> guard option \<Rightarrow> (key \<times> bytes) list \<Rightarrow> bool option" where
  "guard_holds args g rs =
     (case g of
        None \<Rightarrow> Some True
      | Some (NotExists i w) \<Rightarrow> map_option (\<lambda>ms. ms = []) (matching args w rs)
      | Some (IfExists i w) \<Rightarrow> map_option (\<lambda>ms. ms \<noteq> []) (matching args w rs))"

definition insert_row ::
  "conflict \<Rightarrow> string list \<Rightarrow> key \<Rightarrow> bytes \<Rightarrow> (key \<times> bytes) list \<Rightarrow> ((key \<times> bytes) list \<times> nat) option" where
  "insert_row c args k v rs =
     (case map_of rs k of
        None \<Rightarrow> Some (rs @ [(k, v)], 1)
      | Some old \<Rightarrow>
          (case c of
             OnConflictError \<Rightarrow> None
           | OnConflictNothing \<Rightarrow> Some (rs, 0)
           | OnConflictUpdate u \<Rightarrow>
               (case (case u of None \<Rightarrow> Some v | Some n \<Rightarrow> param args n) of
                  None \<Rightarrow> None
                | Some v' \<Rightarrow> Some (map (\<lambda>r. if fst r = k then (k, v') else r) rs, 1))))"

definition delete_key :: "key \<Rightarrow> (key \<times> bytes) list \<Rightarrow> (key \<times> bytes) list \<times> nat" where
  "delete_key k rs =
     (filter (\<lambda>r. fst r \<noteq> k) rs, length (filter (\<lambda>r. fst r = k) rs))"

definition run_exec :: "exec_stmt \<Rightarrow> string list \<Rightarrow> (key \<times> bytes) list \<Rightarrow> ((key \<times> bytes) list \<times> nat) option" where
  "run_exec st args rs =
     (case st of
        InsertSelect i1 i2 g \<Rightarrow>
          (case source_value args i1 of
             None \<Rightarrow> None
           | Some k \<Rightarrow>
               (case source_value args i2 of
                  None \<Rightarrow> None
                | Some v \<Rightarrow>
                    (case guard_holds args g rs of
                       None \<Rightarrow> None
                     | Some holds \<Rightarrow>
                         if holds then insert_row OnConflictError args k v rs
                         else Some (rs, 0))))
      | InsertValues i1 i2 c \<Rightarrow>
          (case source_value args i1 of
             None \<Rightarrow> None
           | Some k \<Rightarrow>
               (case source_value args i2 of
                  None \<Rightarrow> None
                | Some v \<Rightarrow> insert_row c args k v rs))
      | DeleteWhere w \<Rightarrow>
          (case w of
             None \<Rightarrow> Some ([], length rs)
           | Some n \<Rightarrow>
               (case param args n of
                  None \<Rightarrow> None
                | Some k \<Rightarrow> Some (delete_key k rs))))"

text \<open>
  A statement handed to \<open>Exec\<close>: read, then run; \<open>None\<close> is an error of the backend (the
  text is refused, a parameter is missing, or the unique key is violated).
\<close>

definition pg_exec ::
  "string \<Rightarrow> string \<Rightarrow> string list \<Rightarrow> (key \<times> bytes) list \<Rightarrow> ((key \<times> bytes) list \<times> nat) option" where
  "pg_exec t stmt args rs =
     (case parse_exec t stmt of None \<Rightarrow> None | Some st \<Rightarrow> run_exec st args rs)"

text \<open>
  Insert-if-absent, the effect that \<open>pg_exec_Put\<close> below derives for the provider's
  \<open>Put\<close> statement from its text.
\<close>

definition insert_if_absent :: "key \<Rightarrow> bytes \<Rightarrow> (key \<times> bytes) list \<Rightarrow> (key \<times> bytes) list \<times> nat" where
  "insert_if_absent k v rs =
     (case map_of rs k of None \<Rightarrow> (rs @ [(k, v)], 1) | Some _ \<Rightarrow> (rs, 0))"

subsection \<open>One-row queries\<close>

text \<open>
  A statement handed to \<open>QueryRow\<close> is \<open>SELECT item FROM t [WHERE key = $n]\<close>, whose row
  is the item computed on the first row selected, or \<open>SELECT EXISTS ( sub-select )\<close>, which
  always has one row holding a boolean. On a row, \<open>key\<close> is its key, \<open>data\<close> its data,
  and \<open>octet_length\<close> of either is the number of bytes. The outer option is the error
  (refused text, missing parameter), the inner one the row (\<open>None\<close>: no row). A \<open>bytea\<close>
  value is shorter than 2^30 bytes, so its length fits the Go \<open>int\<close> it is scanned into
  and no wrap-around arises.
\<close>

datatype col = CText string | CBytes bytes | CInt int | CBool bool

datatype row_stmt = SelectExists sel_item "nat option" | SelectRow sel_item "nat option"

definition parse_row_query :: "string \<Rightarrow> string \<Rightarrow> row_stmt option" where
  "parse_row_query t stmt =
     (case strip_prefix ''SELECT '' stmt of
        None \<Rightarrow> None
      | Some r \<Rightarrow>
          (case parse_exists t r of
             Some (q, r1) \<Rightarrow> if r1 = [] then Some (SelectExists (fst q) (snd q)) else None
           | None \<Rightarrow>
               (case parse_subselect t stmt of
                  None \<Rightarrow> None
                | Some (q, r1) \<Rightarrow> if r1 = [] then Some (SelectRow (fst q) (snd q)) else None)))"

fun item_col :: "string list \<Rightarrow> sel_item \<Rightarrow> key \<times> bytes \<Rightarrow> col option" where
  "item_col args IKey r = Some (CText (fst r))"
| "item_col args IData r = Some (CBytes (snd r))"
| "item_col args IOne r = Some (CInt 1)"
| "item_col args (IParam n) r = map_option CText (param args n)"
| "item_col args (IOctetLength i) r =
     (case item_col args i r of
        Some (CText x) \<Rightarrow> Some (CInt (int (length x)))
      | Some (CBytes x) \<Rightarrow> Some (CInt (int (length x)))
      | _ \<Rightarrow> None)"

definition run_row_query :: "row_stmt \<Rightarrow> string list \<Rightarrow> (key \<times> bytes) list \<Rightarrow> col option option" where
  "run_row_query q args rs =
     (case q of
        SelectExists i w \<Rightarrow>
          (case matching args w rs of
             None \<Rightarrow> None
           | Some ms \<Rightarrow> Some (Some (CBool (ms \<noteq> []))))
      | SelectRow i w \<Rightarrow>
          (case matching args w rs of
             None \<Rightarrow> None
           | Some [] \<Rightarrow> Some None
           | Some (r # ms) \<Rightarrow>
               (case item_col args i r of None \<Rightarrow> None | Some c \<Rightarrow> Some (Some c))))"

definition pg_query_row ::
  "string \<Rightarrow> string \<Rightarrow> string list \<Rightarrow> (key \<times> bytes) list \<Rightarrow> col option option" where
  "pg_query_row t stmt args rs =
     (case parse_row_query t stmt of None \<Rightarrow> None | Some q \<Rightarrow> run_row_query q args rs)"

subsection \<open>The scan statement and its clauses\<close>

text \<open>
  The scan statement is \<open>SELECT item, item FROM t\<close> with \<open>key\<close> or \<open>data\<close> for each
  item, optionally followed by \<open>WHERE key LIKE 'pattern' ORDER BY key\<close>, by \<open>LIMIT n\<close>
  and by \<open>OFFSET m\<close>, in that order. A string literal ends at the first single quote that
  is not doubled. \<open>LIKE\<close> matches the whole key: \<open>%\<close> stands for any run of bytes,
  \<open>_\<close> for one byte, a backslash takes the next byte literally (a pattern ending in a
  lone backslash matches nothing). \<open>ORDER BY key\<close> orders the keys bytewise (the C
  collation). \<open>OFFSET\<close> skips rows before \<open>LIMIT\<close> counts them. A negative \<open>LIMIT\<close> or
  \<open>OFFSET\<close> is refused, and so is any text outside this grammar. Each row delivered has
  the two columns in the order the statement names them.
\<close>

fun sql_literal :: "string \<Rightarrow> string \<Rightarrow> (string \<times> string) option" where
  "sql_literal acc [] = None"
| "sql_literal acc [c] = (if c = CHR 0x27 then Some (acc, []) else None)"
| "sql_literal acc (c # d # cs) =
     (if c \<noteq> CHR 0x27 then sql_literal (acc @ [c]) (d # cs)
      else if d = CHR 0x27 then sql_literal (acc @ [CHR 0x27]) cs
      else Some (acc, d # cs))"

fun like :: "string \<Rightarrow> string \<Rightarrow> bool" where
  "like [] s = (s = [])"
| "like (p # ps) s =
     (if p = CHR ''%'' then
        like ps s \<or> (case s of [] \<Rightarrow> False | c # s' \<Rightarrow> like (p # ps) s')
      else if p = CHR ''_'' then
        (case s of [] \<Rightarrow> False | c # s' \<Rightarrow> like ps s')
      else if p = CHR 0x5C then
        (case ps of
           [] \<Rightarrow> False
         | e # ps' \<Rightarrow> (case s of [] \<Rightarrow> False | c # s' \<Rightarrow> c = e \<and> like ps' s'))
      else (case s of [] \<Rightarrow> False | c # s' \<Rightarrow> c = p \<and> like ps s'))"

definition parse_int :: "string \<Rightarrow> (int \<times> string) option" where
  "parse_int s =
     (let neg = (case s of [] \<Rightarrow> False | c # cs \<Rightarrow> c = CHR ''-'');
          r = (if neg then tl s else s);
          ds = takeWhile is_digit r;
          n = foldl (\<lambda>a c. 10 * a + (of_char c - 48)) (0::nat) ds
      in if ds = [] then None
         else Some (if neg then - int n else int n, dropWhile is_digit r))"

definition where_clause :: "string \<Rightarrow> (string option \<times> string) option" where
  "where_clause r =
     (case strip_prefix ('' WHERE key LIKE '' @ [CHR 0x27]) r of
        None \<Rightarrow> Some (None, r)
      | Some r1 \<Rightarrow>
          (case sql_literal [] r1 of
             None \<Rightarrow> None
           | Some (pat, r2) \<Rightarrow>
               (case strip_prefix '' ORDER BY key'' r2 of
                  None \<Rightarrow> None
                | Some r3 \<Rightarrow> Some (Some pat, r3))))"

definition number_clause :: "string \<Rightarrow> string \<Rightarrow> (int option \<times> string) option" where
  "number_clause kw r =
     (case strip_prefix kw r of
        None \<Rightarrow> Some (None, r)
      | Some r1 \<Rightarrow>
          (case parse_int r1 of
             None \<Rightarrow> None
           | Some (n, r2) \<Rightarrow> if n < 0 then None else Some (Some n, r2)))"

definition window :: "int option \<Rightarrow> int option \<Rightarrow> 'a list \<Rightarrow> 'a list" where
  "window lim off xs =
     (let ys = (case off of None \<Rightarrow> xs | Some m \<Rightarrow> drop (nat m) xs)
      in case lim of None \<Rightarrow> ys | Some n \<Rightarrow> take (nat n) ys)"

definition column :: "sel_item \<Rightarrow> (key \<times> bytes \<Rightarrow> string) option" where
  "column i = (case i of IKey \<Rightarrow> Some fst | IData \<Rightarrow> Some snd | _ \<Rightarrow> None)"

definition scan_head :: "string \<Rightarrow> string \<Rightarrow> ((sel_item \<times> sel_item) \<times> string) option" where
  "scan_head t stmt =
     (case strip_prefix ''SELECT '' stmt of
        None \<Rightarrow> None
      | Some r \<Rightarrow>
          (case parse_pair r of
             None \<Rightarrow> None
           | Some (is, r1) \<Rightarrow>
               (case strip_prefix ('' FROM '' @ t) r1 of
                  None \<Rightarrow> None
                | Some r2 \<Rightarrow> Some (is, r2))))"

definition pg_select :: "string \<Rightarrow> string \<Rightarrow> (key \<times> bytes) list \<Rightarrow> (string \<times> string) list option" where
  "pg_select t stmt rs =
     (case scan_head t stmt of
        None \<Rightarrow> None
      | Some (is, r0) \<Rightarrow>
          (case (column (fst is), column (snd is)) of
             (Some c1, Some c2) \<Rightarrow>
               (case where_clause r0 of
                  None \<Rightarrow> None
                | Some (pat, r1) \<Rightarrow>
                    (case number_clause '' LIMIT '' r1 of
                       None \<Rightarrow> None
                     | Some (lim, r2) \<Rightarrow>
                         (case number_clause '' OFFSET '' r2 of
                            None \<Rightarrow> None
                          | Some (off, r3) \<Rightarrow>
                              if r3 \<noteq> [] then None
                              else Some (map (\<lambda>r. (c1 r, c2 r))
                                     (window lim off
                                       (case pat of
                                          None \<Rightarrow> rs
                                        | Some p \<Rightarrow>
                                            sort_key fst (filter (\<lambda>r. like p (fst r)) rs)))))))
           | _ \<Rightarrow> None))"

subsection \<open>The calls of database/sql\<close>

text \<open>
  \<open>db.Exec\<close>, \<open>db.QueryRow\<close> with the row's \<open>Scan\<close>, and \<open>db.Query\<close>. A statement
  the backend does not run is a driver error. \<open>QueryRow\<close> itself never fails: the
  error, also \<open>sql.ErrNoRows\<close>, comes out of \<open>Scan\<close>, so the row is
  \<open>backend_error + col\<close>. \<open>db.Query\<close> gives a cursor: the rows that \<open>rows.Next\<close>
  delivers, each as the result of its \<open>Scan\<close> into a string and a byte slice (which
  succeeds for the two not-null columns of the table), and the error \<open>rows.Err()\<close>
  reports when the iteration has ended. When the connection breaks after \<open>n\<close> rows,
  \<open>rows.Next\<close> returns false there and only \<open>rows.Err()\<close> tells. A call that delivers
  no row sequence fails as a whole when the connection breaks.
\<close>

definition DB_Exec :: "string \<Rightarrow> string list \<Rightarrow> DB \<Rightarrow> (backend_error + nat) go \<times> DB" where
  "DB_Exec stmt args s =
     (case reach (CallExec stmt args) s of
        (Panics p, s1) \<Rightarrow> (Panic p, s1)
      | (Fails e, s1) \<Rightarrow> (Return (Inl (DriverError e)), s1)
      | (Breaks n e, s1) \<Rightarrow> (Return (Inl (DriverError e)), s1)
      | (Ok, s1) \<Rightarrow>
          (case pg_exec (tname s1) stmt args (rows s1) of
             None \<Rightarrow> (Return (Inl (DriverError ''statement refused'')), s1)
           | Some (rs, n) \<Rightarrow> (Return (Inr n), s1\<lparr>rows := rs\<rparr>)))"

definition DB_QueryRow :: "string \<Rightarrow> string list \<Rightarrow> DB \<Rightarrow> (backend_error + col) go \<times> DB" where
  "DB_QueryRow stmt args s =
     (case reach (CallQueryRow stmt args) s of
        (Panics p, s1) \<Rightarrow> (Panic p, s1)
      | (Fails e, s1) \<Rightarrow> (Return (Inl (DriverError e)), s1)
      | (Breaks n e, s1) \<Rightarrow> (Return (Inl (DriverError e)), s1)
      | (Ok, s1) \<Rightarrow>
          (case pg_query_row (tname s1) stmt args (rows s1) of
             None \<Rightarrow> (Return (Inl (DriverError ''statement refused'')), s1)
           | Some None \<Rightarrow> (Return (Inl ErrNoRows), s1)
           | Some (Some c) \<Rightarrow> (Return (Inr c), s1)))"

type_synonym scan_row = "backend_error + (string \<times> bytes)"

type_synonym cursor = "scan_row list \<times> backend_error option"

definition DB_Query :: "string \<Rightarrow> DB \<Rightarrow> (backend_error + cursor) go \<times> DB" where
  "DB_Query stmt s =
     (case reach (CallQuery stmt) s of
        (Panics p, s1) \<Rightarrow> (Panic p, s1)
      | (Fails e, s1) \<Rightarrow> (Return (Inl (DriverError e)), s1)
      | (Breaks n e, s1) \<Rightarrow>
          (case pg_select (tname s1) stmt (rows s1) of
             None \<Rightarrow> (Return (Inl (DriverError ''statement refused'')), s1)
           | Some rs \<Rightarrow> (Return (Inr (map Inr (take n rs), Some (DriverError e))), s1))
      | (Ok, s1) \<Rightarrow>
          (case pg_select (tname s1) stmt (rows s1) of
             None \<Rightarrow> (Return (Inl (DriverError ''statement refused'')), s1)
           | Some rs \<Rightarrow> (Return (Inr (map Inr rs, None)), s1)))"

text \<open>
  \<open>Scan\<close> into a byte slice and into an int. Conversions between column types are not
  modelled: a column of another type is reported as a driver error.
\<close>

definition Scan_bytes :: "backend_error + col \<Rightarrow> bytes option \<times> backend_error option" where
  "Scan_bytes row =
     (case row of
        Inl e \<Rightarrow> (None, Some e)
      | Inr (CBytes v) \<Rightarrow> (Some v, None)
      | Inr _ \<Rightarrow> (None, Some (DriverError ''Scan'')))"

definition Scan_int :: "backend_error + col \<Rightarrow> int \<times> backend_error option" where
  "Scan_int row =
     (case row of
        Inl e \<Rightarrow> (0, Some e)
      | Inr (CInt n) \<Rightarrow> (n, None)
      | Inr _ \<Rightarrow> (0, Some (DriverError ''Scan'')))"

subsection \<open>Transactions\<close>

text \<open>
  A \<open>sql.Tx\<close> is open until its first \<open>Commit\<close> or \<open>Rollback\<close>; from then on every
  operation on it fails with \<open>sql.ErrTxDone\<close> without reaching the backend, whatever the
  driver answered to the \<open>Commit\<close> or \<open>Rollback\<close> that finished it. The statements
  executed in an open transaction are held back (\<open>tx_writes\<close>) and reach the table when
  the commit succeeds; a rollback, or a commit that fails, drops them. The transaction
  object is referenced only by the batch that opened it, so the batch record holds it.
\<close>

record Tx =
  tx_done :: bool
  tx_writes :: "(string \<times> string list) list"

definition replay :: "string \<Rightarrow> (string \<times> string list) list \<Rightarrow> (key \<times> bytes) list \<Rightarrow> (key \<times> bytes) list" where
  "replay t ws rs =
     fold (\<lambda>w acc. case pg_exec t (fst w) (snd w) acc of None \<Rightarrow> acc | Some (acc', n) \<Rightarrow> acc')
       ws rs"

definition DB_Begin :: "DB \<Rightarrow> (backend_error + Tx) go \<times> DB" where
  "DB_Begin s =
     (case reach CallBegin s of
        (Panics p, s1) \<Rightarrow> (Panic p, s1)
      | (Fails e, s1) \<Rightarrow> (Return (Inl (DriverError e)), s1)
      | (Breaks n e, s1) \<Rightarrow> (Return (Inl (DriverError e)), s1)
      | (Ok, s1) \<Rightarrow> (Return (Inr \<lparr>tx_done = False, tx_writes = []\<rparr>), s1))"

definition Tx_Exec :: "Tx \<Rightarrow> string \<Rightarrow> string list \<Rightarrow> DB \<Rightarrow> (backend_error + nat) go \<times> Tx \<times> DB" where
  "Tx_Exec tx stmt args s =
     (if tx_done tx then (Return (Inl ErrTxDone), tx, s)
      else
        (case reach (CallTxExec stmt args) s of
           (Panics p, s1) \<Rightarrow> (Panic p, tx, s1)
         | (Fails e, s1) \<Rightarrow> (Return (Inl (DriverError e)), tx, s1)
         | (Breaks n e, s1) \<Rightarrow> (Return (Inl (DriverError e)), tx, s1)
         | (Ok, s1) \<Rightarrow>
             (case pg_exec (tname s1) stmt args (replay (tname s1) (tx_writes tx) (rows s1)) of
                None \<Rightarrow> (Return (Inl (DriverError ''statement refused'')), tx, s1)
              | Some (rs, n) \<Rightarrow>
                  (Return (Inr n), tx\<lparr>tx_writes := tx_writes tx @ [(stmt, args)]\<rparr>, s1))))"

definition Tx_Commit :: "Tx \<Rightarrow> DB \<Rightarrow> backend_error option go \<times> Tx \<times> DB" where
  "Tx_Commit tx s =
     (if tx_done tx then (Return (Some ErrTxDone), tx, s)
      else
        (case reach CallCommit s of
           (Panics p, s1) \<Rightarrow> (Panic p, tx\<lparr>tx_done := True, tx_writes := []\<rparr>, s1)
         | (Fails e, s1) \<Rightarrow>
             (Return (Some (DriverError e)), tx\<lparr>tx_done := True, tx_writes := []\<rparr>, s1)
         | (Breaks n e, s1) \<Rightarrow>
             (Return (Some (DriverError e)), tx\<lparr>tx_done := True, tx_writes := []\<rparr>, s1)
         | (Ok, s1) \<Rightarrow>
             (Return None, tx\<lparr>tx_done := True, tx_writes := []\<rparr>,
              s1\<lparr>rows := replay (tname s1) (tx_writes tx) (rows s1)\<rparr>)))"

definition Tx_Rollback :: "Tx \<Rightarrow> DB \<Rightarrow> backend_error option go \<times> Tx \<times> DB" where
  "Tx_Rollback tx s =
     (if tx_done tx then (Return (Some ErrTxDone), tx, s)
      else
        (case reach CallRollback s of
           (Panics p, s1) \<Rightarrow> (Panic p, tx\<lparr>tx_done := True, tx_writes := []\<rparr>, s1)
         | (Fails e, s1) \<Rightarrow>
             (Return (Some (DriverError e)), tx\<lparr>tx_done := True, tx_writes := []\<rparr>, s1)
         | (Breaks n e, s1) \<Rightarrow>
             (Return (Some (DriverError e)), tx\<lparr>tx_done := True, tx_writes := []\<rparr>, s1)
         | (Ok, s1) \<Rightarrow> (Return None, tx\<lparr>tx_done := True, tx_writes := []\<rparr>, s1)))"

subsection \<open>Panics and recover\<close>

text \<open>
  \<open>recover()\<close> returns the value of the current panic and stops the panicking only
  when it is called directly by a deferred function; called anywhere else, also in a
  function that a deferred function calls, it returns nil and the panic goes on (The Go
  Programming Language Specification, Handling panics). \<open>direct\<close> says whether the
  caller of \<open>recover\<close> is itself the deferred function.
\<close>

definition recover :: "bool \<Rightarrow> string option \<Rightarrow> string option" where
  "recover direct panicking = (if direct then panicking else None)"

section \<open>The result-set helpers of go-datastore/query\<close>

text \<open>
  An entry, the query descriptor (the fields the package reads) and the three helpers
  \<open>Query\<close> calls. A filter is its \<open>Filter\<close> method, an order its \<open>Compare\<close> method.
  A result sequence is the list of its entries in the order they are drained.
  \<open>NaiveFilter\<close> keeps the entries the filter accepts, in order. \<open>NaiveOrder\<close> with no
  order returns the results as they are; otherwise it sorts by \<open>Less\<close>, which asks the
  orders in turn and breaks ties by key.
\<close>

record Entry =
  Key :: string
  Value :: bytes

record dsq_Query =
  Prefix :: string
  Filters :: "(Entry \<Rightarrow> bool) list"
  Orders :: "(Entry \<Rightarrow> Entry \<Rightarrow> int) list"
  Limit :: int
  Offset :: int

definition ResultsWithEntries :: "dsq_Query \<Rightarrow> Entry list \<Rightarrow> Entry list" where
  "ResultsWithEntries q entries = entries"

definition NaiveFilter :: "Entry list \<Rightarrow> (Entry \<Rightarrow> bool) \<Rightarrow> Entry list" where
  "NaiveFilter qr f = filter f qr"

fun Less :: "(Entry \<Rightarrow> Entry \<Rightarrow> int) list \<Rightarrow> Entry \<Rightarrow> Entry \<Rightarrow> bool" where
  "Less [] a b = (Key a < Key b)"
| "Less (cmp # orders) a b =
     (if cmp a b = 0 then Less orders a b
      else if cmp a b = - 1 then True
      else if cmp a b = 1 then False
      else Less orders a b)"

fun insert_by :: "('a \<Rightarrow> 'a \<Rightarrow> bool) \<Rightarrow> 'a \<Rightarrow> 'a list \<Rightarrow> 'a list" where
  "insert_by lt x [] = [x]"
| "insert_by lt x (y # ys) = (if lt y x then y # insert_by lt x ys else x # y # ys)"

definition NaiveOrder :: "Entry list \<Rightarrow> (Entry \<Rightarrow> Entry \<Rightarrow> int) list \<Rightarrow> Entry list" where
  "NaiveOrder qr orders =
     (if orders = [] then qr else foldr (insert_by (Less orders)) qr [])"

text \<open>\<open>FilterKeyPrefix\<close>: the filter that accepts the keys starting with the prefix.\<close>

definition FilterKeyPrefix :: "string \<Rightarrow> Entry \<Rightarrow> bool" where
  "FilterKeyPrefix p e = (take (length p) (Key e) = p)"

section \<open>The store and its batches (part\_000)\<close>

text \<open>
  Both structs hold the handle \<open>db\<close> of the one backend, whose state the operations
  take and return, and the query provider. A batch also holds its transaction, nil at
  first.
\<close>

record Datastore =
  queries :: Queries

record batch =
  batch_queries :: Queries
  txn :: "Tx option"

subsection \<open>Batches (lines 39-138)\<close>

text \<open>
  \<open>GetTransaction\<close> (lines 45-61). When \<open>db.Begin\<close> fails it returns no transaction,
  so the rollback of lines 52-54 has nothing to run on.
\<close>

definition GetTransaction :: "batch \<Rightarrow> DB \<Rightarrow> (error + Tx) go \<times> batch \<times> DB" where
  "GetTransaction b s =
     (case txn b of
        Some tx \<Rightarrow> (Return (Inr tx), b, s)
      | None \<Rightarrow>
          (case DB_Begin s of
             (Return (Inl err), s1) \<Rightarrow> (Return (Inl (BackendError err)), b, s1)
           | (Return (Inr newTransaction), s1) \<Rightarrow>
               (Return (Inr newTransaction), b\<lparr>txn := Some newTransaction\<rparr>, s1)
           | (Panic p, s1) \<Rightarrow> (Panic p, b, s1)
           | (Exit m, s1) \<Rightarrow> (Exit m, b, s1)))"

text \<open>
  \<open>rollbackTxn\<close> (lines 63-75), with what the Go runtime supplies: whether the function
  is itself the deferred one, and the panic in flight, if any. The errors of the two
  \<open>Rollback\<close> calls are dropped, as in the source.
\<close>

definition rollbackTxn ::
  "bool \<Rightarrow> error option \<Rightarrow> string option \<Rightarrow> batch \<Rightarrow> DB \<Rightarrow> unit go \<times> batch \<times> DB" where
  "rollbackTxn direct err panicking b s =
     (case txn b of
        None \<Rightarrow> (Return (), b, s)
      | Some tx \<Rightarrow>
          (case (if err \<noteq> None then Tx_Rollback tx s else (Return None, tx, s)) of
             (Panic p, tx1, s1) \<Rightarrow> (Panic p, b\<lparr>txn := Some tx1\<rparr>, s1)
           | (Exit m, tx1, s1) \<Rightarrow> (Exit m, b\<lparr>txn := Some tx1\<rparr>, s1)
           | (Return x, tx1, s1) \<Rightarrow>
               (case recover direct panicking of
                  None \<Rightarrow> (Return (), b\<lparr>txn := Some tx1\<rparr>, s1)
                | Some r \<Rightarrow>
                    (case Tx_Rollback tx1 s1 of
                       (Return y, tx2, s2) \<Rightarrow> (Panic r, b\<lparr>txn := Some tx2\<rparr>, s2)
                     | (Panic p, tx2, s2) \<Rightarrow> (Panic p, b\<lparr>txn := Some tx2\<rparr>, s2)
                     | (Exit m, tx2, s2) \<Rightarrow> (Exit m, b\<lparr>txn := Some tx2\<rparr>, s2)))))"

text \<open>
  \<open>defer func() { b.rollbackTxn(err) }()\<close> (lines 78 and 98). The deferred function is
  the closure; \<open>rollbackTxn\<close> is called by it, so its \<open>recover\<close> is not a direct call.
  The closure reads the named result \<open>err\<close> when it runs: the returned error after a
  return, and nil after a panic, since a body can panic only inside \<open>GetTransaction\<close>
  or \<open>txn.Exec\<close>, where \<open>err\<close> is still nil. A panic that the deferred call neither
  recovers nor replaces goes on to the caller.
\<close>

definition deferred_rollbackTxn :: "error option go \<times> batch \<times> DB \<Rightarrow> error option go \<times> batch \<times> DB" where
  "deferred_rollbackTxn body =
     (case body of
        (Return err, b1, s1) \<Rightarrow>
          (case rollbackTxn False err None b1 s1 of
             (Return u, b2, s2) \<Rightarrow> (Return err, b2, s2)
           | (Panic p, b2, s2) \<Rightarrow> (Panic p, b2, s2)
           | (Exit m, b2, s2) \<Rightarrow> (Exit m, b2, s2))
      | (Panic p, b1, s1) \<Rightarrow>
          (case rollbackTxn False None (Some p) b1 s1 of
             (Return u, b2, s2) \<Rightarrow> (Panic p, b2, s2)
           | (Panic p', b2, s2) \<Rightarrow> (Panic p', b2, s2)
           | (Exit m, b2, s2) \<Rightarrow> (Exit m, b2, s2))
      | (Exit m, b1, s1) \<Rightarrow> (Exit m, b1, s1))"

text \<open>\<open>batch.Put\<close> (lines 77-95): the body, then the deferred call.\<close>

definition batch_Put_body :: "batch \<Rightarrow> key \<Rightarrow> bytes option \<Rightarrow> DB \<Rightarrow> error option go \<times> batch \<times> DB" where
  "batch_Put_body b key val s =
     (case val of
        None \<Rightarrow> (Return (Some ErrInvalidType), b, s)
      | Some v \<Rightarrow>
          (case GetTransaction b s of
             (Return (Inl err), b1, s1) \<Rightarrow> (Return (Some err), b1, s1)
           | (Return (Inr tx), b1, s1) \<Rightarrow>
               (case Tx_Exec tx (Queries_Put (batch_queries b1)) [key, v] s1 of
                  (Return (Inl err), tx1, s2) \<Rightarrow>
                    (Return (Some (BackendError err)), b1\<lparr>txn := Some tx1\<rparr>, s2)
                | (Return (Inr n), tx1, s2) \<Rightarrow> (Return None, b1\<lparr>txn := Some tx1\<rparr>, s2)
                | (Panic p, tx1, s2) \<Rightarrow> (Panic p, b1\<lparr>txn := Some tx1\<rparr>, s2)
                | (Exit m, tx1, s2) \<Rightarrow> (Exit m, b1\<lparr>txn := Some tx1\<rparr>, s2))
           | (Panic p, b1, s1) \<Rightarrow> (Panic p, b1, s1)
           | (Exit m, b1, s1) \<Rightarrow> (Exit m, b1, s1)))"

definition batch_Put :: "batch \<Rightarrow> key \<Rightarrow> bytes option \<Rightarrow> DB \<Rightarrow> error option go \<times> batch \<times> DB" where
  "batch_Put b key val s = deferred_rollbackTxn (batch_Put_body b key val s)"

text \<open>\<open>batch.Delete\<close> (lines 97-111).\<close>

definition batch_Delete_body :: "batch \<Rightarrow> key \<Rightarrow> DB \<Rightarrow> error option go \<times> batch \<times> DB" where
  "batch_Delete_body b key s =
     (case GetTransaction b s of
        (Return (Inl err), b1, s1) \<Rightarrow> (Return (Some err), b1, s1)
      | (Return (Inr tx), b1, s1) \<Rightarrow>
          (case Tx_Exec tx (Queries_Delete (batch_queries b1)) [key] s1 of
             (Return (Inl err), tx1, s2) \<Rightarrow>
               (Return (Some (BackendError err)), b1\<lparr>txn := Some tx1\<rparr>, s2)
           | (Return (Inr n), tx1, s2) \<Rightarrow> (Return None, b1\<lparr>txn := Some tx1\<rparr>, s2)
           | (Panic p, tx1, s2) \<Rightarrow> (Panic p, b1\<lparr>txn := Some tx1\<rparr>, s2)
           | (Exit m, tx1, s2) \<Rightarrow> (Exit m, b1\<lparr>txn := Some tx1\<rparr>, s2))
      | (Panic p, b1, s1) \<Rightarrow> (Panic p, b1, s1)
      | (Exit m, b1, s1) \<Rightarrow> (Exit m, b1, s1))"

definition batch_Delete :: "batch \<Rightarrow> key \<Rightarrow> DB \<Rightarrow> error option go \<times> batch \<times> DB" where
  "batch_Delete b key s = deferred_rollbackTxn (batch_Delete_body b key s)"

text \<open>\<open>batch.Commit\<close> (lines 113-128).\<close>

definition batch_Commit :: "batch \<Rightarrow> DB \<Rightarrow> error option go \<times> batch \<times> DB" where
  "batch_Commit b s =
     (case txn b of
        None \<Rightarrow> (Return None, b, s)
      | Some tx \<Rightarrow>
          (case Tx_Commit tx s of
             (Return None, tx1, s1) \<Rightarrow> (Return None, b\<lparr>txn := Some tx1\<rparr>, s1)
           | (Return (Some err), tx1, s1) \<Rightarrow>
               (case Tx_Rollback tx1 s1 of
                  (Return y, tx2, s2) \<Rightarrow>
                    (Return (Some (BackendError err)), b\<lparr>txn := Some tx2\<rparr>, s2)
                | (Panic p, tx2, s2) \<Rightarrow> (Panic p, b\<lparr>txn := Some tx2\<rparr>, s2)
                | (Exit m, tx2, s2) \<Rightarrow> (Exit m, b\<lparr>txn := Some tx2\<rparr>, s2))
           | (Panic p, tx1, s1) \<Rightarrow> (Panic p, b\<lparr>txn := Some tx1\<rparr>, s1)
           | (Exit m, tx1, s1) \<Rightarrow> (Exit m, b\<lparr>txn := Some tx1\<rparr>, s1)))"

text \<open>\<open>Datastore.Batch\<close> (lines 130-138): the new batch and a nil error.\<close>

definition Datastore_Batch :: "Datastore \<Rightarrow> batch \<times> error option" where
  "Datastore_Batch d = (\<lparr>batch_queries = queries d, txn = None\<rparr>, None)"

text \<open>A caller's use of a batch: operations applied one after the other.\<close>

datatype batch_op = OpPut key "bytes option" | OpDelete key | OpCommit

fun batch_apply :: "batch_op \<Rightarrow> batch \<Rightarrow> DB \<Rightarrow> error option go \<times> batch \<times> DB" where
  "batch_apply (OpPut k v) b s = batch_Put b k v s"
| "batch_apply (OpDelete k) b s = batch_Delete b k s"
| "batch_apply OpCommit b s = batch_Commit b s"

fun batch_run :: "batch_op list \<Rightarrow> batch \<Rightarrow> DB \<Rightarrow> error option go list \<times> batch \<times> DB" where
  "batch_run [] b s = ([], b, s)"
| "batch_run (x # xs) b s =
     (case batch_apply x b s of
        (r, b1, s1) \<Rightarrow> (case batch_run xs b1 s1 of (rs, b2, s2) \<Rightarrow> (r # rs, b2, s2)))"

text \<open>
  The states of a batch's transaction: none yet, open, or finished (committed or rolled
  back).
\<close>

definition txn_open :: "batch \<Rightarrow> bool" where
  "txn_open b = (case txn b of None \<Rightarrow> False | Some tx \<Rightarrow> \<not> tx_done tx)"

definition txn_finished :: "batch \<Rightarrow> bool" where
  "txn_finished b = (case txn b of None \<Rightarrow> False | Some tx \<Rightarrow> tx_done tx)"

definition is_error :: "error option go \<Rightarrow> bool" where
  "is_error r = (case r of Return (Some e) \<Rightarrow> True | _ \<Rightarrow> False)"

subsection \<open>Single operations (lines 162-200, 255-267)\<close>

definition Datastore_Get :: "Datastore \<Rightarrow> key \<Rightarrow> DB \<Rightarrow> (bytes option \<times> error option) go \<times> DB" where
  "Datastore_Get d key s =
     (case DB_QueryRow (Queries_Get (queries d)) [key] s of
        (Return row, s1) \<Rightarrow>
          (case Scan_bytes row of
             (out, Some ErrNoRows) \<Rightarrow> (Return (None, Some ErrNotFound), s1)
           | (out, None) \<Rightarrow> (Return (out, None), s1)
           | (out, Some err) \<Rightarrow> (Return (None, Some (BackendError err)), s1))
      | (Panic p, s1) \<Rightarrow> (Panic p, s1)
      | (Exit m, s1) \<Rightarrow> (Exit m, s1))"

definition Datastore_Put :: "Datastore \<Rightarrow> key \<Rightarrow> bytes option \<Rightarrow> DB \<Rightarrow> error option go \<times> DB" where
  "Datastore_Put d key val s =
     (case val of
        None \<Rightarrow> (Return (Some ErrInvalidType), s)
      | Some v \<Rightarrow>
          (case DB_Exec (Queries_Put (queries d)) [key, v] s of
             (Return (Inl err), s1) \<Rightarrow> (Return (Some (BackendError err)), s1)
           | (Return (Inr n), s1) \<Rightarrow> (Return None, s1)
           | (Panic p, s1) \<Rightarrow> (Panic p, s1)
           | (Exit m, s1) \<Rightarrow> (Exit m, s1)))"

definition Datastore_GetSize :: "Datastore \<Rightarrow> key \<Rightarrow> DB \<Rightarrow> (int \<times> error option) go \<times> DB" where
  "Datastore_GetSize d key s =
     (case DB_QueryRow (Queries_GetSize (queries d)) [key] s of
        (Return row, s1) \<Rightarrow>
          (case Scan_int row of
             (sz, Some ErrNoRows) \<Rightarrow> (Return (- 1, Some ErrNotFound), s1)
           | (sz, None) \<Rightarrow> (Return (sz, None), s1)
           | (sz, Some err) \<Rightarrow> (Return (0, Some (BackendError err)), s1))
      | (Panic p, s1) \<Rightarrow> (Panic p, s1)
      | (Exit m, s1) \<Rightarrow> (Exit m, s1))"

subsection \<open>Queries (lines 202-253, 280-298)\<close>

text \<open>
  \<open>QueryWithParams\<close>: the statement text it builds in \<open>qNew\<close>, and the call
  \<open>d.db.Query(qNew)\<close>.
\<close>

definition QueryWithParams_qNew :: "Datastore \<Rightarrow> dsq_Query \<Rightarrow> string" where
  "QueryWithParams_qNew d q =
     (let qNew = Queries_Query (queries d);
          qNew = (if Prefix q \<noteq> [] then
                    qNew @ Sprintf (Queries_Prefix (queries d)) (ArgS (Prefix q))
                  else qNew);
          qNew = (if Limit q \<noteq> 0 then
                    qNew @ Sprintf (Queries_Limit (queries d)) (ArgI (Limit q))
                  else qNew);
          qNew = (if Offset q \<noteq> 0 then
                    qNew @ Sprintf (Queries_Offset (queries d)) (ArgI (Offset q))
                  else qNew)
      in qNew)"

definition QueryWithParams :: "Datastore \<Rightarrow> dsq_Query \<Rightarrow> DB \<Rightarrow> (backend_error + cursor) go \<times> DB" where
  "QueryWithParams d q s = DB_Query (QueryWithParams_qNew d q) s"

text \<open>
  The loop of \<open>RawQuery\<close> (lines 234-249): a row that cannot be scanned ends the process
  through \<open>log.Fatal\<close>. After the loop \<open>RawQuery\<close> does not consult \<open>rows.Err()\<close>: the
  cursor's error is dropped.
\<close>

fun scan_entries :: "scan_row list \<Rightarrow> Entry list \<Rightarrow> Entry list go" where
  "scan_entries [] entries = Return entries"
| "scan_entries (r # rest) entries =
     (case r of
        Inl err \<Rightarrow> Exit ''Error reading rows from query''
      | Inr (key, out) \<Rightarrow> scan_entries rest (entries @ [\<lparr>Key = key, Value = out\<rparr>]))"

definition RawQuery :: "Datastore \<Rightarrow> dsq_Query \<Rightarrow> DB \<Rightarrow> (error + Entry list) go \<times> DB" where
  "RawQuery d q s =
     (case (if Prefix q \<noteq> [] then QueryWithParams d q s
            else DB_Query (Queries_Query (queries d)) s) of
        (Return (Inl err), s1) \<Rightarrow> (Return (Inl (BackendError err)), s1)
      | (Return (Inr (rws, rows_err)), s1) \<Rightarrow>
          (case scan_entries rws [] of
             Return entries \<Rightarrow> (Return (Inr (ResultsWithEntries q entries)), s1)
           | Panic p \<Rightarrow> (Panic p, s1)
           | Exit m \<Rightarrow> (Exit m, s1))
      | (Panic p, s1) \<Rightarrow> (Panic p, s1)
      | (Exit m, s1) \<Rightarrow> (Exit m, s1))"

definition Datastore_Query :: "Datastore \<Rightarrow> dsq_Query \<Rightarrow> DB \<Rightarrow> (error + Entry list) go \<times> DB" where
  "Datastore_Query d q s =
     (case RawQuery d q s of
        (Return (Inl err), s1) \<Rightarrow> (Return (Inl err), s1)
      | (Return (Inr raw), s1) \<Rightarrow>
          (Return (Inr (NaiveOrder (fold (\<lambda>f raw. NaiveFilter raw f) (Filters q) raw) (Orders q))),
           s1)
      | (Panic p, s1) \<Rightarrow> (Panic p, s1)
      | (Exit m, s1) \<Rightarrow> (Exit m, s1))"

section \<open>Concrete stores\<close>

text \<open>
  A store over the table \<open>kv\<close> of the default options, and a backend holding given rows
  with a given script, for the worked examples below.
\<close>

definition ex_store :: Datastore where
  "ex_store = \<lparr>queries = newQueries ''kv''\<rparr>"

definition ex_db :: "(key \<times> bytes) list \<Rightarrow> outcome list \<Rightarrow> DB" where
  "ex_db rs sc = \<lparr>tname = ''kv'', rows = rs, script = sc, calls = []\<rparr>"

text \<open>A batch of that store after one successful \<open>Put\<close>: its transaction is open.\<close>

definition ex_open_batch :: batch where
  "ex_open_batch =
     \<lparr>batch_queries = newQueries ''kv'',
      txn = Some \<lparr>tx_done = False, tx_writes = [(queries_Put ''kv'', [''k1'', ''v1''])]\<rparr>\<rparr>"

section \<open>Facts about the backend\<close>

lemma reach_healthy:
  "script s = [] \<Longrightarrow> reach c s = (Ok, s\<lparr>calls := calls s @ [c]\<rparr>)"
  by (simp add: reach_def)

lemma strip_prefix_append: "strip_prefix p (p @ r) = Some r"
  by (induction p) simp_all

lemma strip_prefix_same: "strip_prefix (p @ q) (p @ r) = strip_prefix q r"
  by (induction p) simp_all

lemma digit_facts:
  "is_digit CHR ''1''" "is_digit CHR ''2''" "\<not> is_digit CHR '',''" "\<not> is_digit CHR '' ''"
  "\<not> is_digit CHR '')''"
  by (simp_all add: is_digit_def less_eq_char_def)

text \<open>
  How the backend reads the provider's statements, and what they then do: \<open>Put\<close> is
  an insert whose source has a row only when no row has the key, \<open>Delete\<close> removes the
  rows with the key, \<open>Get\<close> reads the data and \<open>GetSize\<close> the length of the data of
  the row with the key.
\<close>

lemma parse_exec_Put:
  "parse_exec t (queries_Put t) = Some (InsertSelect (IParam 1) (IParam 2) (Some (NotExists IKey (Some 1))))"
  by (simp add: parse_exec_def queries_Put_def strip_prefix_same strip_prefix_append
      parse_source_def parse_pair_def parse_item_def parse_plain_item_def parse_param_def
      digit_facts parse_guard_def parse_exists_def skip_spaces_def parse_subselect_def
      key_clause_def parse_key_eq_def)

lemma parse_exec_Delete:
  "parse_exec t (queries_Delete t) = Some (DeleteWhere (Some 1))"
  by (simp add: parse_exec_def queries_Delete_def strip_prefix_same strip_prefix_append
      parse_param_def digit_facts skip_spaces_def key_clause_def parse_key_eq_def)

lemma parse_row_query_Get:
  "parse_row_query t (queries_Get t) = Some (SelectRow IData (Some 1))"
  by (simp add: parse_row_query_def queries_Get_def strip_prefix_same strip_prefix_append
      parse_item_def parse_plain_item_def parse_param_def
      digit_facts parse_exists_def skip_spaces_def parse_subselect_def
      key_clause_def parse_key_eq_def)

lemma parse_row_query_GetSize:
  "parse_row_query t (queries_GetSize t) = Some (SelectRow (IOctetLength IData) (Some 1))"
  by (simp add: parse_row_query_def queries_GetSize_def strip_prefix_same strip_prefix_append
      parse_item_def parse_plain_item_def parse_param_def
      digit_facts parse_exists_def skip_spaces_def parse_subselect_def
      key_clause_def parse_key_eq_def)

lemma parse_row_query_Exists:
  "parse_row_query t (queries_Exists t) = Some (SelectExists IOne (Some 1))"
  by (simp add: parse_row_query_def queries_Exists_def strip_prefix_same strip_prefix_append
      parse_item_def parse_plain_item_def parse_param_def
      digit_facts parse_exists_def skip_spaces_def parse_subselect_def
      key_clause_def parse_key_eq_def)

lemma scan_head_Query:
  "scan_head t (queries_Query t @ r) = Some ((IKey, IData), r)"
  by (simp add: scan_head_def queries_Query_def strip_prefix_same strip_prefix_append
      parse_pair_def parse_item_def parse_plain_item_def)

lemma filter_key_empty: "(filter (\<lambda>r. fst r = k) rs = []) = (map_of rs k = None)"
  by (induction rs) auto

lemma first_match:
  "(case filter (\<lambda>r. fst r = k) rs of [] \<Rightarrow> None | r # ms \<Rightarrow> Some (snd r)) = map_of rs k"
  by (induction rs) auto

lemma pg_exec_Put:
  "pg_exec t (queries_Put t) [k, v] rs = Some (insert_if_absent k v rs)"
  by (simp add: pg_exec_def parse_exec_Put run_exec_def source_value_def param_def
      guard_holds_def matching_def filter_key_empty insert_row_def insert_if_absent_def
      split: option.splits)

lemma pg_exec_Delete:
  "pg_exec t (queries_Delete t) [k] rs = Some (delete_key k rs)"
  by (simp add: pg_exec_def parse_exec_Delete run_exec_def param_def)

lemma pg_query_row_Get:
  "pg_query_row t (queries_Get t) [k] rs = Some (map_option CBytes (map_of rs k))"
  by (simp add: pg_query_row_def parse_row_query_Get run_row_query_def matching_def param_def
      first_match [of k rs, symmetric] split: list.splits)

lemma pg_query_row_GetSize:
  "pg_query_row t (queries_GetSize t) [k] rs =
     Some (map_option (\<lambda>v. CInt (int (length v))) (map_of rs k))"
  by (simp add: pg_query_row_def parse_row_query_GetSize run_row_query_def matching_def param_def
      first_match [of k rs, symmetric] split: list.splits)

lemma map_of_insert_if_absent:
  "map_of (fst (insert_if_absent k v rs)) k' =
     (if k' = k \<and> map_of rs k = None then Some v else map_of rs k')"
  by (auto simp: insert_if_absent_def map_of_append map_add_def split: option.splits)

lemma insert_if_absent_present:
  "map_of rs k = Some v0 \<Longrightarrow> insert_if_absent k v rs = (rs, 0)"
  by (simp add: insert_if_absent_def)

lemma scan_entries_ok:
  "scan_entries (map Inr rs) acc = Return (acc @ map (\<lambda>r. \<lparr>Key = fst r, Value = snd r\<rparr>) rs)"
  by (induction rs arbitrary: acc) (simp_all split: prod.splits)

lemma pg_select_all: "pg_select t (queries_Query t) rs = Some rs"
  using scan_head_Query [of t "[]"]
  by (simp add: pg_select_def column_def where_clause_def number_clause_def window_def)

lemma like_any: "like ''%'' s"
  by (induction s) simp_all

lemma like_literal:
  assumes "p \<noteq> CHR ''%''" "p \<noteq> CHR ''_''" "p \<noteq> CHR 0x5C"
  shows "like (p # ps) (c # s) = (c = p \<and> like ps s)" and "like (p # ps) [] = False"
  using assms by simp_all

lemma like_a_slash: "like ''a/%'' k = FilterKeyPrefix ''a/'' \<lparr>Key = k, Value = v\<rparr>"
proof (cases k)
  case Nil
  then show ?thesis by (simp del: like.simps add: like_literal FilterKeyPrefix_def)
next
  case (Cons c k1)
  show ?thesis
  proof (cases k1)
    case Nil
    with Cons show ?thesis by (simp del: like.simps add: like_literal FilterKeyPrefix_def)
  next
    case (Cons c2 k2)
    with \<open>k = c # k1\<close> show ?thesis
      by (auto simp del: like.simps simp add: like_literal like_any FilterKeyPrefix_def)
  qed
qed

lemma where_clause_a_slash:
  "where_clause ('' WHERE key LIKE '' @ [CHR 0x27] @ ''a/%'' @ [CHR 0x27] @ '' ORDER BY key'') =
     Some (Some ''a/%'', [])"
  by (simp add: where_clause_def)

lemma pg_select_a_slash:
  "pg_select t (queries_Query t @ '' WHERE key LIKE '' @ [CHR 0x27] @ ''a/%'' @ [CHR 0x27] @ '' ORDER BY key'') rs =
     Some (sort_key fst
            (filter (\<lambda>r. FilterKeyPrefix ''a/'' \<lparr>Key = fst r, Value = snd r\<rparr>) rs))"
  using where_clause_a_slash like_a_slash
    scan_head_Query [of t "'' WHERE key LIKE '' @ [CHR 0x27] @ ''a/%'' @ [CHR 0x27] @ '' ORDER BY key''"]
  by (simp add: pg_select_def column_def number_clause_def window_def
      del: like.simps)

lemma txn_same: "txn b = Some tx \<Longrightarrow> b\<lparr>txn := Some tx\<rparr> = b"
  by (cases b) simp

lemma Tx_Rollback_done:
  "tx_done tx \<Longrightarrow> Tx_Rollback tx s = (Return (Some ErrTxDone), tx, s)"
  by (simp add: Tx_Rollback_def)

section \<open>Statement composition\<close>

lemma Sprintf_Prefix:
  "Sprintf (queries_Prefix t) (ArgS p) =
     '' WHERE key LIKE '' @ [CHR 0x27] @ p @ ''%'' @ [CHR 0x27] @ '' ORDER BY key''"
  by (simp add: Sprintf_def queries_Prefix_def fmt_verb_def)

lemma Sprintf_Limit:
  "Sprintf (queries_Limit t) (ArgI n) = '' LIMIT '' @ show_int n"
  by (simp add: Sprintf_def queries_Limit_def fmt_verb_def)

lemma Sprintf_Offset:
  "Sprintf (queries_Offset t) (ArgI n) = '' OFFSET '' @ show_int n"
  by (simp add: Sprintf_def queries_Offset_def fmt_verb_def)

lemma RawQuery_calls:
  "calls (snd (RawQuery d q s)) =
     calls s @ [CallQuery (if Prefix q \<noteq> [] then QueryWithParams_qNew d q
                           else Queries_Query (queries d))]"
  by (simp add: RawQuery_def QueryWithParams_def DB_Query_def reach_def
      split: prod.splits outcome.splits option.splits go.splits sum.splits)

text \<open>
  C5. The text built by \<open>QueryWithParams\<close> is the base query, then the prefix clause
  exactly when the prefix is not empty, then the limit clause exactly when the limit is
  not zero, then the offset clause exactly when the offset is not zero, each clause the
  provider's template rendered with the descriptor's value. \<open>RawQuery\<close> sends exactly one
  statement to the backend: the composed one when the prefix is not empty, the bare base
  query otherwise. For the PostgreSQL provider the clauses read
  \<open>WHERE key LIKE 'prefix%' ORDER BY key\<close>, \<open>LIMIT n\<close> and \<open>OFFSET m\<close>.
\<close>

theorem QueryWithParams_composition:
  "QueryWithParams_qNew d q =
     Queries_Query (queries d)
     @ (if Prefix q \<noteq> [] then Sprintf (Queries_Prefix (queries d)) (ArgS (Prefix q)) else [])
     @ (if Limit q \<noteq> 0 then Sprintf (Queries_Limit (queries d)) (ArgI (Limit q)) else [])
     @ (if Offset q \<noteq> 0 then Sprintf (Queries_Offset (queries d)) (ArgI (Offset q)) else [])
   \<and> calls (snd (RawQuery d q s)) =
       calls s @ [CallQuery (if Prefix q \<noteq> [] then QueryWithParams_qNew d q
                             else Queries_Query (queries d))]
   \<and> QueryWithParams_qNew \<lparr>queries = newQueries t\<rparr> q =
       ''SELECT key, data FROM '' @ t
       @ (if Prefix q \<noteq> [] then
            '' WHERE key LIKE '' @ [CHR 0x27] @ Prefix q @ ''%'' @ [CHR 0x27] @ '' ORDER BY key''
          else [])
       @ (if Limit q \<noteq> 0 then '' LIMIT '' @ show_int (Limit q) else [])
       @ (if Offset q \<noteq> 0 then '' OFFSET '' @ show_int (Offset q) else [])"
  by (simp add: QueryWithParams_qNew_def Let_def RawQuery_calls newQueries_def
      Sprintf_Prefix Sprintf_Limit Sprintf_Offset queries_Query_def)

section \<open>Single operations on a healthy backend\<close>

lemma Datastore_Put_healthy:
  assumes "script s = []" "queries d = newQueries (tname s)"
  shows "Datastore_Put d k (Some v) s =
     (Return None,
      s\<lparr>rows := fst (insert_if_absent k v (rows s)),
        calls := calls s @ [CallExec (queries_Put (tname s)) [k, v]]\<rparr>)"
  using assms
  by (simp add: Datastore_Put_def DB_Exec_def reach_def newQueries_def pg_exec_Put
      split: prod.splits)

lemma Datastore_Get_healthy:
  assumes "script s = []" "queries d = newQueries (tname s)"
  shows "Datastore_Get d k s =
     (Return (case map_of (rows s) k of
                None \<Rightarrow> (None, Some ErrNotFound)
              | Some v \<Rightarrow> (Some v, None)),
      s\<lparr>calls := calls s @ [CallQueryRow (queries_Get (tname s)) [k]]\<rparr>)"
  using assms
  by (simp add: Datastore_Get_def DB_QueryRow_def reach_def newQueries_def pg_query_row_Get
      Scan_bytes_def split: option.splits)

lemma Datastore_GetSize_healthy:
  assumes "script s = []" "queries d = newQueries (tname s)"
  shows "Datastore_GetSize d k s =
     (Return (case map_of (rows s) k of
                None \<Rightarrow> (- 1, Some ErrNotFound)
              | Some v \<Rightarrow> (int (length v), None)),
      s\<lparr>calls := calls s @ [CallQueryRow (queries_GetSize (tname s)) [k]]\<rparr>)"
  using assms
  by (simp add: Datastore_GetSize_def DB_QueryRow_def reach_def newQueries_def
      pg_query_row_GetSize Scan_int_def split: option.splits)

text \<open>
  C1. On a healthy backend whose table is the store's: \<open>Put(k, v1)\<close> returns nil, and a
  following \<open>Put(k, v2)\<close> returns nil, changes no row and leaves \<open>Get(k)\<close> returning what
  it returned before it. When \<open>Put(k, v1)\<close> is the first write of \<open>k\<close> (no row has the
  key), \<open>Get(k)\<close> returns \<open>v1\<close> after it, and still \<open>v1\<close> after \<open>Put(k, v2)\<close>.
\<close>

theorem Put_first_write_wins:
  assumes "script s = []" and "queries d = newQueries (tname s)"
  shows "case Datastore_Put d k (Some v1) s of
           (r1, s1) \<Rightarrow>
             (case Datastore_Put d k (Some v2) s1 of
                (r2, s2) \<Rightarrow>
                  r1 = Return None \<and> r2 = Return None \<and> rows s2 = rows s1 \<and>
                  fst (Datastore_Get d k s2) = fst (Datastore_Get d k s1) \<and>
                  (map_of (rows s) k = None \<longrightarrow>
                     fst (Datastore_Get d k s1) = Return (Some v1, None) \<and>
                     fst (Datastore_Get d k s2) = Return (Some v1, None)))"
proof -
  define s1 where "s1 = snd (Datastore_Put d k (Some v1) s)"
  define s2 where "s2 = snd (Datastore_Put d k (Some v2) s1)"
  have p1: "Datastore_Put d k (Some v1) s = (Return None, s1)"
    and h1: "script s1 = []" "queries d = newQueries (tname s1)"
    and r1: "rows s1 = fst (insert_if_absent k v1 (rows s))"
    using assms by (simp_all add: s1_def Datastore_Put_healthy)
  have p2: "Datastore_Put d k (Some v2) s1 = (Return None, s2)"
    and h2: "script s2 = []" "queries d = newQueries (tname s2)"
    and r2: "rows s2 = fst (insert_if_absent k v2 (rows s1))"
    using h1 by (simp_all add: s2_def Datastore_Put_healthy)
  have present: "map_of (rows s1) k \<noteq> None"
    by (simp add: r1 map_of_insert_if_absent)
  then have same: "rows s2 = rows s1"
    by (auto simp: r2 insert_if_absent_present)
  have g1: "fst (Datastore_Get d k s1) =
      Return (case map_of (rows s1) k of None \<Rightarrow> (None, Some ErrNotFound) | Some v \<Rightarrow> (Some v, None))"
    using h1 by (simp add: Datastore_Get_healthy)
  have g2: "fst (Datastore_Get d k s2) =
      Return (case map_of (rows s2) k of None \<Rightarrow> (None, Some ErrNotFound) | Some v \<Rightarrow> (Some v, None))"
    using h2 by (simp add: Datastore_Get_healthy)
  have a: "map_of (rows s) k = None \<longrightarrow> fst (Datastore_Get d k s1) = Return (Some v1, None)"
    by (simp add: g1 r1 map_of_insert_if_absent)
  show ?thesis
    using a by (simp add: p1 p2 same g1 g2)
qed

theorem Put_first_write_wins_witness:
  "(case Datastore_Put ex_store ''k'' (Some ''v1'') (ex_db [] []) of
      (r1, s1) \<Rightarrow>
        (case Datastore_Put ex_store ''k'' (Some ''v2'') s1 of
           (r2, s2) \<Rightarrow>
             r1 = Return None \<and> r2 = Return None \<and> rows s2 = [(''k'', ''v1'')] \<and>
             fst (Datastore_Get ex_store ''k'' s1) = Return (Some ''v1'', None) \<and>
             fst (Datastore_Get ex_store ''k'' s2) = Return (Some ''v1'', None)))"
proof -
  have h: "script (ex_db [] []) = []" "queries ex_store = newQueries (tname (ex_db [] []))"
    "map_of (rows (ex_db [] [])) ''k'' = None"
    by (simp_all add: ex_db_def ex_store_def)
  have e: "rows (snd (Datastore_Put ex_store ''k'' (Some ''v1'') (ex_db [] []))) = [(''k'', ''v1'')]"
    using h(1,2) by (simp add: Datastore_Put_healthy insert_if_absent_def ex_db_def)
  show ?thesis
    using Put_first_write_wins [OF h(1,2), of "''k''" "''v1''" "''v2''"] h(3) e
    by (auto split: prod.splits)
qed

text \<open>
  C9. On a healthy backend whose table is the store's, \<open>GetSize(k)\<close> returns the length
  in bytes of the value stored under \<open>k\<close> with a nil error, and \<open>-1\<close> with
  \<open>ErrNotFound\<close> when no row has the key; it changes no row.
\<close>

theorem GetSize_correct:
  assumes "script s = []" and "queries d = newQueries (tname s)"
  shows "(\<forall>v. map_of (rows s) k = Some v \<longrightarrow>
            fst (Datastore_GetSize d k s) = Return (int (length v), None))
       \<and> (map_of (rows s) k = None \<longrightarrow>
            fst (Datastore_GetSize d k s) = Return (- 1, Some ErrNotFound))
       \<and> rows (snd (Datastore_GetSize d k s)) = rows s"
  using assms by (simp add: Datastore_GetSize_healthy)

theorem GetSize_correct_witness:
  "fst (Datastore_GetSize ex_store ''a'' (ex_db [(''a'', ''hello'')] [])) = Return (5, None)
 \<and> fst (Datastore_GetSize ex_store ''b'' (ex_db [(''a'', ''hello'')] [])) = Return (- 1, Some ErrNotFound)"
  using GetSize_correct [of "ex_db [(''a'', ''hello'')] []" ex_store "''a''"]
    GetSize_correct [of "ex_db [(''a'', ''hello'')] []" ex_store "''b''"]
  by (simp add: ex_db_def ex_store_def)

section \<open>Absent and empty values\<close>

lemma Datastore_Put_absent:
  "Datastore_Put d k None s = (Return (Some ErrInvalidType), s)"
  by (simp add: Datastore_Put_def)

lemma batch_Put_absent_not_open:
  "\<not> txn_open b \<Longrightarrow> batch_Put b k None s = (Return (Some ErrInvalidType), b, s)"
  by (auto simp: batch_Put_def batch_Put_body_def deferred_rollbackTxn_def rollbackTxn_def
      recover_def Tx_Rollback_done txn_same txn_open_def split: option.splits)

lemma batch_Put_absent_open:
  assumes "txn_open b"
  shows "case batch_Put b k None s of
           (r, b', s') \<Rightarrow>
             calls s' = calls s @ [CallRollback] \<and> rows s' = rows s \<and> txn_finished b' \<and>
             r = (case fst (next_outcome (script s)) of
                    Panics p \<Rightarrow> Panic p
                  | _ \<Rightarrow> Return (Some ErrInvalidType))"
  using assms
  by (auto simp: batch_Put_def batch_Put_body_def deferred_rollbackTxn_def rollbackTxn_def
      recover_def Tx_Rollback_def reach_def txn_open_def txn_finished_def
      split: option.splits prod.splits outcome.splits)

lemma batch_Put_healthy:
  assumes "script s = []" "batch_queries b = newQueries (tname s)" "\<not> txn_finished b"
  shows "case batch_Put b k (Some v) s of
           (r, b', s') \<Rightarrow>
             r = Return None \<and> txn_open b' \<and> rows s' = rows s \<and>
             last (calls s') = CallTxExec (queries_Put (tname s)) [k, v]"
  using assms
  by (auto simp: batch_Put_def batch_Put_body_def deferred_rollbackTxn_def GetTransaction_def
      Tx_Exec_def reach_def rollbackTxn_def recover_def DB_Begin_def newQueries_def pg_exec_Put
      txn_open_def txn_finished_def
      split: option.splits prod.splits)

lemma ex_open_batch_reached:
  "batch_Put (fst (Datastore_Batch ex_store)) ''k1'' (Some ''v1'') (ex_db [] []) =
     (Return None, ex_open_batch,
      (ex_db [] [])\<lparr>calls := [CallBegin, CallTxExec (queries_Put ''kv'') [''k1'', ''v1'']]\<rparr>)"
  by (simp add: batch_Put_def batch_Put_body_def deferred_rollbackTxn_def GetTransaction_def
      Tx_Exec_def reach_def rollbackTxn_def recover_def Datastore_Batch_def ex_store_def ex_db_def
      DB_Begin_def newQueries_def pg_exec_Put replay_def ex_open_batch_def
      split: prod.splits)

text \<open>
  C6, as the code has it. \<open>Put(k, nil)\<close> on the store returns \<open>ErrInvalidType\<close> and
  leaves the backend state untouched: no call, no row changed. So does \<open>Put(k, nil)\<close> on
  a batch whose transaction is not open (none yet, or finished). On a batch whose
  transaction is open the check still comes before \<open>GetTransaction\<close> and \<open>Exec\<close>, but
  the deferred \<open>rollbackTxn\<close> then sends exactly one call to the backend, the
  \<open>Rollback\<close> of that transaction; \<open>Put\<close> then returns \<open>ErrInvalidType\<close>, or, when the
  backend panics in that \<open>Rollback\<close>, panics with the backend's value. The rows are
  unchanged and the transaction is finished either way.
\<close>

theorem Put_absent_rejected:
  "Datastore_Put d k None s = (Return (Some ErrInvalidType), s)
   \<and> (\<not> txn_open b \<longrightarrow> batch_Put b k None s = (Return (Some ErrInvalidType), b, s))
   \<and> (txn_open b \<longrightarrow>
        (case batch_Put b k None s of
           (r, b', s') \<Rightarrow>
             calls s' = calls s @ [CallRollback] \<and> rows s' = rows s \<and> txn_finished b' \<and>
             r = (case fst (next_outcome (script s)) of
                    Panics p \<Rightarrow> Panic p
                  | _ \<Rightarrow> Return (Some ErrInvalidType))))"
proof (intro conjI impI)
  show "Datastore_Put d k None s = (Return (Some ErrInvalidType), s)"
    by (rule Datastore_Put_absent)
next
  assume "\<not> txn_open b"
  then show "batch_Put b k None s = (Return (Some ErrInvalidType), b, s)"
    by (rule batch_Put_absent_not_open)
next
  assume "txn_open b"
  then show "case batch_Put b k None s of
           (r, b', s') \<Rightarrow>
             calls s' = calls s @ [CallRollback] \<and> rows s' = rows s \<and> txn_finished b' \<and>
             r = (case fst (next_outcome (script s)) of
                    Panics p \<Rightarrow> Panic p
                  | _ \<Rightarrow> Return (Some ErrInvalidType))"
    by (rule batch_Put_absent_open)
qed

theorem Put_absent_rejected_witness:
  "Datastore_Put ex_store ''k'' None (ex_db [] []) = (Return (Some ErrInvalidType), ex_db [] [])
   \<and> \<not> txn_open (fst (Datastore_Batch ex_store))
   \<and> batch_Put (fst (Datastore_Batch ex_store)) ''k'' None (ex_db [] []) =
       (Return (Some ErrInvalidType), fst (Datastore_Batch ex_store), ex_db [] [])
   \<and> txn_open ex_open_batch
   \<and> (case batch_Put ex_open_batch ''k'' None (ex_db [] []) of
         (r, b', s') \<Rightarrow>
           r = Return (Some ErrInvalidType) \<and> calls s' = [CallRollback] \<and> rows s' = [] \<and>
           txn_finished b')
   \<and> (case batch_Put ex_open_batch ''k'' None (ex_db [] [Panics ''rb'']) of
         (r, b', s') \<Rightarrow>
           r = Panic ''rb'' \<and> calls s' = [CallRollback] \<and> rows s' = [] \<and> txn_finished b')"
proof -
  have c: "\<not> txn_open (fst (Datastore_Batch ex_store))"
    by (simp add: txn_open_def Datastore_Batch_def)
  have o: "txn_open ex_open_batch"
    by (simp add: txn_open_def ex_open_batch_def)
  have n: "fst (next_outcome (script (ex_db [] []))) = Ok" "calls (ex_db [] []) = []"
    "rows (ex_db [] []) = []"
    "fst (next_outcome (script (ex_db [] [Panics ''rb'']))) = Panics ''rb''"
    "calls (ex_db [] [Panics ''rb'']) = []" "rows (ex_db [] [Panics ''rb'']) = []"
    by (simp_all add: ex_db_def)
  show ?thesis
    using Put_absent_rejected [of ex_store "''k''" "ex_db [] []" "fst (Datastore_Batch ex_store)"]
      Put_absent_rejected [of ex_store "''k''" "ex_db [] []" ex_open_batch]
      Put_absent_rejected [of ex_store "''k''" "ex_db [] [Panics ''rb'']" ex_open_batch] c o n
    by (auto split: prod.splits)
qed

text \<open>
  The claim as worded fails for a batch with an open transaction. After one successful
  \<open>Put\<close>, \<open>Put(k2, nil)\<close> on a healthy backend returns \<open>ErrInvalidType\<close> only after a
  \<open>Rollback\<close> was sent to the backend; and on a backend that panics in that
  \<open>Rollback\<close>, \<open>Put(k2, nil)\<close> does not fail with \<open>ErrInvalidType\<close> but panics.
\<close>

theorem batch_Put_absent_reaches_backend:
  "(case batch_Put (fst (Datastore_Batch ex_store)) ''k1'' (Some ''v1'') (ex_db [] []) of
      (r1, b1, s1) \<Rightarrow>
        (case batch_Put b1 ''k2'' None s1 of
           (r2, b2, s2) \<Rightarrow>
             r1 = Return None \<and> r2 = Return (Some ErrInvalidType) \<and>
             calls s2 = calls s1 @ [CallRollback] \<and> calls s2 \<noteq> calls s1))
   \<and> (case batch_Put (fst (Datastore_Batch ex_store)) ''k1'' (Some ''v1'')
             (ex_db [] [Ok, Ok, Panics ''rb'']) of
         (r1, b1, s1) \<Rightarrow>
           (case batch_Put b1 ''k2'' None s1 of
              (r2, b2, s2) \<Rightarrow>
                r1 = Return None \<and> r2 = Panic ''rb'' \<and> r2 \<noteq> Return (Some ErrInvalidType) \<and>
                calls s2 = calls s1 @ [CallRollback]))"
  by code_simp

lemma batch_Put_absent_result:
  "fst (batch_Put b k None s) =
     (if txn_open b then
        (case fst (next_outcome (script s)) of
           Panics p \<Rightarrow> Panic p
         | _ \<Rightarrow> Return (Some ErrInvalidType))
      else Return (Some ErrInvalidType))"
  using batch_Put_absent_not_open [where b = b and k = k and s = s]
    batch_Put_absent_open [where b = b and k = k and s = s]
  by (cases "txn_open b") (auto split: prod.splits)

lemma batch_Put_present_not_invalid:
  "fst (batch_Put b k (Some v) s) \<noteq> Return (Some ErrInvalidType)"
  by (auto simp: batch_Put_def batch_Put_body_def deferred_rollbackTxn_def GetTransaction_def
      split: option.splits prod.splits go.splits sum.splits)

lemma replay_Put:
  "replay t [(queries_Put t, [k, v])] rs = fst (insert_if_absent k v rs)"
  by (simp add: replay_def pg_exec_Put split: prod.splits)

lemma batch_Put_Commit_fresh:
  assumes "script s = []" "batch_queries b = newQueries (tname s)" "txn b = None"
  shows "case batch_Put b k (Some v) s of
           (r, b', s') \<Rightarrow>
             r = Return None \<and>
             (case batch_Commit b' s' of
                (r2, b2, s2) \<Rightarrow>
                  r2 = Return None \<and> rows s2 = fst (insert_if_absent k v (rows s)))"
  using assms
  by (simp add: batch_Put_def batch_Put_body_def deferred_rollbackTxn_def GetTransaction_def
      Tx_Exec_def reach_def rollbackTxn_def recover_def DB_Begin_def newQueries_def pg_exec_Put
      batch_Commit_def Tx_Commit_def replay_Put
      split: prod.splits)

text \<open>
  C10, as the code has it. The store's \<open>Put\<close> returns \<open>ErrInvalidType\<close> exactly when
  the value is nil, on every backend. A batch's \<open>Put\<close> returns \<open>ErrInvalidType\<close> only
  when the value is nil; for a nil value it returns \<open>ErrInvalidType\<close>, except on a batch
  with an open transaction when the backend panics in the rollback that the failure
  triggers: then \<open>Put\<close> panics with the backend's value. A present value of length 0 is
  never answered with \<open>ErrInvalidType\<close> and is written like any other: on a healthy
  backend the store's \<open>Put\<close> returns nil with the insert-if-absent done, so that, the
  key having no row, the row with the empty value is there and \<open>Get\<close> returns the
  present empty value; a batch's \<open>Put\<close> (transaction not finished) returns nil with
  the insert sent inside the open transaction, and the \<open>Commit\<close> of a new batch after
  it puts the row in the table.
\<close>

theorem Put_InvalidValue_iff:
  "(fst (Datastore_Put d k v s) = Return (Some ErrInvalidType)) = (v = None)
   \<and> (fst (batch_Put b k v s) = Return (Some ErrInvalidType) \<longrightarrow> v = None)
   \<and> fst (batch_Put b k None s) =
       (if txn_open b then
          (case fst (next_outcome (script s)) of
             Panics p \<Rightarrow> Panic p
           | _ \<Rightarrow> Return (Some ErrInvalidType))
        else Return (Some ErrInvalidType))
   \<and> (script s = [] \<and> queries d = newQueries (tname s) \<longrightarrow>
        (case Datastore_Put d k (Some []) s of
           (r, s') \<Rightarrow>
             r = Return None \<and> rows s' = fst (insert_if_absent k [] (rows s)) \<and>
             (map_of (rows s) k = None \<longrightarrow>
                rows s' = rows s @ [(k, [])] \<and>
                fst (Datastore_Get d k s') = Return (Some [], None))))
   \<and> (script s = [] \<and> batch_queries b = newQueries (tname s) \<and> \<not> txn_finished b \<longrightarrow>
        (case batch_Put b k (Some []) s of
           (r, b', s') \<Rightarrow>
             r = Return None \<and> txn_open b' \<and>
             last (calls s') = CallTxExec (queries_Put (tname s)) [k, []]))
   \<and> (script s = [] \<and> batch_queries b = newQueries (tname s) \<and> txn b = None \<longrightarrow>
        (case batch_Put b k (Some []) s of
           (r, b', s') \<Rightarrow>
             r = Return None \<and>
             (case batch_Commit b' s' of
                (r2, b2, s2) \<Rightarrow>
                  r2 = Return None \<and> rows s2 = fst (insert_if_absent k [] (rows s)) \<and>
                  (map_of (rows s) k = None \<longrightarrow> rows s2 = rows s @ [(k, [])]))))"
proof -
  have 1: "(fst (Datastore_Put d k v s) = Return (Some ErrInvalidType)) = (v = None)"
    by (auto simp: Datastore_Put_def split: option.splits prod.splits go.splits sum.splits)
  have 2: "fst (batch_Put b k v s) = Return (Some ErrInvalidType) \<longrightarrow> v = None"
    using batch_Put_present_not_invalid [of b k _ s] by (cases v) auto
  have 4: "script s = [] \<and> queries d = newQueries (tname s) \<longrightarrow>
        (case Datastore_Put d k (Some []) s of
           (r, s') \<Rightarrow>
             r = Return None \<and> rows s' = fst (insert_if_absent k [] (rows s)) \<and>
             (map_of (rows s) k = None \<longrightarrow>
                rows s' = rows s @ [(k, [])] \<and>
                fst (Datastore_Get d k s') = Return (Some [], None)))"
    by (auto simp: Datastore_Put_healthy Datastore_Get_healthy insert_if_absent_def
        map_add_def)
  have 5: "script s = [] \<and> batch_queries b = newQueries (tname s) \<and> \<not> txn_finished b \<longrightarrow>
        (case batch_Put b k (Some []) s of
           (r, b', s') \<Rightarrow>
             r = Return None \<and> txn_open b' \<and>
             last (calls s') = CallTxExec (queries_Put (tname s)) [k, []])"
    using batch_Put_healthy [where b = b and k = k and s = s and v = "[]"]
    by (auto split: prod.splits)
  have 6: "script s = [] \<and> batch_queries b = newQueries (tname s) \<and> txn b = None \<longrightarrow>
        (case batch_Put b k (Some []) s of
           (r, b', s') \<Rightarrow>
             r = Return None \<and>
             (case batch_Commit b' s' of
                (r2, b2, s2) \<Rightarrow>
                  r2 = Return None \<and> rows s2 = fst (insert_if_absent k [] (rows s)) \<and>
                  (map_of (rows s) k = None \<longrightarrow> rows s2 = rows s @ [(k, [])])))"
    using batch_Put_Commit_fresh [where b = b and k = k and s = s and v = "[]"]
    by (auto simp: insert_if_absent_def split: prod.splits)
  from 1 2 batch_Put_absent_result [of b k s] 4 5 6 show ?thesis
    by (intro conjI) assumption+
qed

theorem Put_InvalidValue_iff_witness:
  "fst (Datastore_Put ex_store ''k'' None (ex_db [] [])) = Return (Some ErrInvalidType)
   \<and> fst (batch_Put ex_open_batch ''k'' None (ex_db [] [])) = Return (Some ErrInvalidType)
   \<and> (case Datastore_Put ex_store ''k'' (Some []) (ex_db [] []) of
         (r, s') \<Rightarrow>
           r = Return None \<and> rows s' = [(''k'', [])] \<and>
           fst (Datastore_Get ex_store ''k'' s') = Return (Some [], None))
   \<and> (case batch_Put (fst (Datastore_Batch ex_store)) ''k'' (Some []) (ex_db [] []) of
         (r, b', s') \<Rightarrow>
           r = Return None \<and>
           (case batch_Commit b' s' of
              (r2, b2, s2) \<Rightarrow> r2 = Return None \<and> rows s2 = [(''k'', [])]))"
proof -
  have h: "script (ex_db [] []) = []" "queries ex_store = newQueries (tname (ex_db [] []))"
    "batch_queries (fst (Datastore_Batch ex_store)) = newQueries (tname (ex_db [] []))"
    "txn (fst (Datastore_Batch ex_store)) = None" "txn_open ex_open_batch"
    "map_of (rows (ex_db [] [])) ''k'' = None" "rows (ex_db [] []) = []"
    "fst (next_outcome (script (ex_db [] []))) = Ok"
    by (simp_all add: ex_db_def ex_store_def ex_open_batch_def txn_open_def Datastore_Batch_def)
  show ?thesis
    using Put_InvalidValue_iff [of ex_store "''k''" None "ex_db [] []" ex_open_batch]
      Put_InvalidValue_iff [of ex_store "''k''" "Some []" "ex_db [] []"
        "fst (Datastore_Batch ex_store)"] h
    by (auto split: prod.splits)
qed

text \<open>
  The claim as worded fails for a batch with an open transaction on a backend that panics
  in \<open>Rollback\<close>: after one successful \<open>Put\<close>, \<open>Put\<close> of a nil value does not return
  \<open>ErrInvalidType\<close>, it panics.
\<close>

theorem batch_Put_absent_may_panic:
  "(case batch_Put (fst (Datastore_Batch ex_store)) ''k1'' (Some ''v1'')
          (ex_db [] [Ok, Ok, Panics ''rb'']) of
      (r1, b1, s1) \<Rightarrow>
        r1 = Return None \<and> txn_open b1 \<and>
        fst (batch_Put b1 ''k2'' None s1) = Panic ''rb'' \<and>
        fst (batch_Put b1 ''k2'' None s1) \<noteq> Return (Some ErrInvalidType))"
  by code_simp

section \<open>Batches\<close>

lemma batch_Commit_no_txn:
  "txn b = None \<Longrightarrow> batch_Commit b s = (Return None, b, s)"
  by (simp add: batch_Commit_def)

text \<open>
  C7. \<open>Batch()\<close> returns a batch without a transaction and a nil error. On that batch
  \<open>Commit\<close>, called any number of times with no \<open>Put\<close> or \<open>Delete\<close> before, returns
  nil each time and leaves the batch and the whole backend state as they were: no call
  is recorded, no answer of the script is taken, no row changes.
\<close>

theorem empty_batch_Commit_noop:
  "snd (Datastore_Batch d) = None \<and>
   batch_run (replicate n OpCommit) (fst (Datastore_Batch d)) s =
     (replicate n (Return None), fst (Datastore_Batch d), s)"
proof (induction n)
  case 0
  show ?case by (simp add: Datastore_Batch_def)
next
  case (Suc n)
  have "txn (fst (Datastore_Batch d)) = None"
    by (simp add: Datastore_Batch_def)
  then have "batch_Commit (fst (Datastore_Batch d)) s = (Return None, fst (Datastore_Batch d), s)"
    by (rule batch_Commit_no_txn)
  with Suc show ?case by simp
qed

lemma rollbackTxn_finished:
  "txn_finished b \<Longrightarrow> rollbackTxn False err None b s = (Return (), b, s)"
  by (auto simp: txn_finished_def rollbackTxn_def recover_def Tx_Rollback_done txn_same
      split: option.splits)

lemma rollbackTxn_no_txn:
  "txn b = None \<Longrightarrow> rollbackTxn direct err panicking b s = (Return (), b, s)"
  by (simp add: rollbackTxn_def)

lemma batch_Put_finished:
  "txn_finished b \<Longrightarrow>
   batch_Put b k v s =
     (Return (Some (case v of None \<Rightarrow> ErrInvalidType | Some x \<Rightarrow> BackendError ErrTxDone)), b, s)"
  by (auto simp: batch_Put_def batch_Put_body_def deferred_rollbackTxn_def GetTransaction_def
      Tx_Exec_def rollbackTxn_finished txn_same txn_finished_def
      split: option.splits)

lemma batch_Delete_finished:
  "txn_finished b \<Longrightarrow> batch_Delete b k s = (Return (Some (BackendError ErrTxDone)), b, s)"
  by (auto simp: batch_Delete_def batch_Delete_body_def deferred_rollbackTxn_def GetTransaction_def
      Tx_Exec_def rollbackTxn_finished txn_same txn_finished_def
      split: option.splits)

lemma batch_Commit_finished:
  "txn_finished b \<Longrightarrow> batch_Commit b s = (Return (Some (BackendError ErrTxDone)), b, s)"
  by (auto simp: batch_Commit_def Tx_Commit_def Tx_Rollback_done txn_same txn_finished_def
      split: option.splits)

lemma batch_apply_finished:
  "txn_finished b \<Longrightarrow> \<exists>e. batch_apply x b s = (Return (Some e), b, s)"
  by (cases x) (simp_all add: batch_Put_finished batch_Delete_finished batch_Commit_finished)

lemma batch_Commit_finishes:
  "txn_open b \<Longrightarrow> txn_finished (fst (snd (batch_Commit b s)))"
  by (auto simp: txn_open_def txn_finished_def batch_Commit_def Tx_Commit_def Tx_Rollback_def
      reach_def split: option.splits prod.splits outcome.splits go.splits)

lemma rollbackTxn_err_closes:
  "err \<noteq> None \<Longrightarrow> \<not> txn_open (fst (snd (rollbackTxn False err None b s)))"
  by (auto simp: txn_open_def rollbackTxn_def Tx_Rollback_def recover_def reach_def
      split: option.splits prod.splits outcome.splits go.splits)

lemma deferred_failure_closes:
  "fst (deferred_rollbackTxn body) = Return (Some e) \<Longrightarrow>
   \<not> txn_open (fst (snd (deferred_rollbackTxn body)))"
proof -
  assume a: "fst (deferred_rollbackTxn body) = Return (Some e)"
  obtain r b1 s1 where body: "body = (r, b1, s1)" by (cases body) auto
  show ?thesis
  proof (cases r)
    case (Return err)
    obtain u b2 s2 where rb: "rollbackTxn False err None b1 s1 = (u, b2, s2)"
      by (cases "rollbackTxn False err None b1 s1") auto
    from a body Return rb have "err = Some e"
      by (cases u) (simp_all add: deferred_rollbackTxn_def)
    then have "\<not> txn_open (fst (snd (rollbackTxn False err None b1 s1)))"
      using rollbackTxn_err_closes by blast
    with body Return rb show ?thesis
      by (cases u) (simp_all add: deferred_rollbackTxn_def)
  next
    case (Panic p)
    with a body show ?thesis
      by (simp add: deferred_rollbackTxn_def split: prod.splits go.splits)
  next
    case (Exit m)
    with a body show ?thesis
      by (simp add: deferred_rollbackTxn_def)
  qed
qed

lemma batch_failure_closes:
  "fst (batch_Put b k v s) = Return (Some e) \<Longrightarrow> \<not> txn_open (fst (snd (batch_Put b k v s)))"
  "fst (batch_Delete b k s) = Return (Some e) \<Longrightarrow> \<not> txn_open (fst (snd (batch_Delete b k s)))"
  "fst (batch_Commit b s) = Return (Some e) \<Longrightarrow> \<not> txn_open (fst (snd (batch_Commit b s)))"
proof -
  show "fst (batch_Put b k v s) = Return (Some e) \<Longrightarrow> \<not> txn_open (fst (snd (batch_Put b k v s)))"
    unfolding batch_Put_def by (rule deferred_failure_closes)
  show "fst (batch_Delete b k s) = Return (Some e) \<Longrightarrow> \<not> txn_open (fst (snd (batch_Delete b k s)))"
    unfolding batch_Delete_def by (rule deferred_failure_closes)
  show "fst (batch_Commit b s) = Return (Some e) \<Longrightarrow> \<not> txn_open (fst (snd (batch_Commit b s)))"
    by (auto simp: txn_open_def batch_Commit_def Tx_Commit_def Tx_Rollback_def
      reach_def split: option.splits prod.splits outcome.splits go.splits if_splits)
qed

text \<open>
  C8. On a batch whose transaction is finished (committed or rolled back), every
  \<open>Put\<close>, \<open>Delete\<close> and \<open>Commit\<close> of any later sequence of operations returns an
  error, and the batch and the backend state stay as they were. A transaction gets
  finished by \<open>Commit\<close>, whatever its result (\<open>batch_Commit_finishes\<close>), and by any
  \<open>Put\<close> or \<open>Delete\<close> that returns an error (\<open>batch_failure_closes\<close>).
\<close>

theorem finished_batch_rejects:
  assumes "txn_finished b"
  shows "list_all is_error (fst (batch_run ops b s)) \<and>
         length (fst (batch_run ops b s)) = length ops \<and>
         snd (batch_run ops b s) = (b, s)"
proof (induction ops)
  case Nil
  show ?case by simp
next
  case (Cons x xs)
  from assms obtain e where "batch_apply x b s = (Return (Some e), b, s)"
    using batch_apply_finished by blast
  moreover have "is_error (Return (Some e))"
    by (simp add: is_error_def)
  ultimately show ?case using Cons
    by (cases "batch_run xs b s") auto
qed

theorem finished_batch_rejects_witness:
  "txn_open ex_open_batch
   \<and> txn_finished (fst (snd (batch_Commit ex_open_batch (ex_db [] []))))
   \<and> list_all is_error
        (fst (batch_run [OpPut ''k'' (Some ''v''), OpDelete ''k1'', OpCommit, OpPut ''k'' None]
               (fst (snd (batch_Commit ex_open_batch (ex_db [] []))))
               (snd (snd (batch_Commit ex_open_batch (ex_db [] []))))))"
proof -
  have o: "txn_open ex_open_batch"
    by (simp add: txn_open_def ex_open_batch_def)
  then have f: "txn_finished (fst (snd (batch_Commit ex_open_batch (ex_db [] []))))"
    by (rule batch_Commit_finishes)
  show ?thesis
    using o f finished_batch_rejects [OF f] by blast
qed

subsection \<open>Panics\<close>

text \<open>
  A panic inside \<open>txn.Exec\<close> on an open transaction: the deferred closure calls
  \<open>rollbackTxn\<close> with a nil error, whose \<open>recover()\<close> is not a direct call of a deferred
  function and yields nil, so nothing is rolled back and the panic goes on. Had
  \<open>rollbackTxn\<close> been the deferred function itself, lines 70-74 would roll back and
  panic again with the same value.
\<close>

lemma batch_Put_panic_no_rollback:
  assumes "txn b = Some tx" "\<not> tx_done tx" "script s = Panics p # sc"
  shows "batch_Put b k (Some v) s =
     (Panic p, b, s\<lparr>script := sc, calls := calls s @ [CallTxExec (Queries_Put (batch_queries b)) [k, v]]\<rparr>)"
  using assms
  by (simp add: batch_Put_def batch_Put_body_def deferred_rollbackTxn_def GetTransaction_def
      Tx_Exec_def reach_def rollbackTxn_def recover_def txn_same)

lemma rollbackTxn_direct_recovers:
  assumes "txn b = Some tx" "\<not> tx_done tx" "script s = []"
  shows "rollbackTxn True None (Some p) b s =
     (Panic p, b\<lparr>txn := Some (tx\<lparr>tx_done := True, tx_writes := []\<rparr>)\<rparr>,
      s\<lparr>calls := calls s @ [CallRollback]\<rparr>)"
  using assms
  by (simp add: rollbackTxn_def recover_def Tx_Rollback_def reach_def)

text \<open>
  C3, at a failing input. A batch on a backend that answers \<open>Begin\<close> and the first
  \<open>Exec\<close> and panics in the second: the first \<open>Put\<close> returns nil and leaves the
  transaction open; the second \<open>Put\<close> panics with the backend's value, unchanged, but the
  transaction is still open afterwards and no \<open>Rollback\<close> was sent: the three calls are
  \<open>Begin\<close> and the two \<open>Exec\<close>s.
\<close>

theorem batch_panic_leaves_txn_open:
  "(case batch_Put (fst (Datastore_Batch ex_store)) ''k1'' (Some ''v1'')
          (ex_db [] [Ok, Ok, Panics ''boom'']) of
      (r1, b1, s1) \<Rightarrow>
        (case batch_Put b1 ''k2'' (Some ''v2'') s1 of
           (r2, b2, s2) \<Rightarrow>
             r1 = Return None \<and> txn_open b1 \<and> r2 = Panic ''boom'' \<and> txn_open b2 \<and>
             CallRollback \<notin> set (calls s2) \<and> length (calls s2) = 3))"
  by code_simp

section \<open>Queries\<close>

lemma Query_pushdown_a_slash:
  assumes "script s = []" "queries d = newQueries (tname s)"
  shows "Datastore_Query d \<lparr>Prefix = ''a/'', Filters = [], Orders = [], Limit = 0, Offset = 0\<rparr> s =
     (Return (Inr (map (\<lambda>r. \<lparr>Key = fst r, Value = snd r\<rparr>)
        (sort_key fst (filter (\<lambda>r. FilterKeyPrefix ''a/'' \<lparr>Key = fst r, Value = snd r\<rparr>) (rows s))))),
      s\<lparr>calls := calls s @ [CallQuery (''SELECT key, data FROM '' @ tname s @ '' WHERE key LIKE '' @ [CHR 0x27] @ ''a/%'' @ [CHR 0x27] @ '' ORDER BY key'')]\<rparr>)"
proof -
  let ?q = "\<lparr>Prefix = ''a/'', Filters = [], Orders = [], Limit = 0, Offset = 0\<rparr>"
  have t: "QueryWithParams_qNew d ?q =
      queries_Query (tname s) @ '' WHERE key LIKE '' @ [CHR 0x27] @ ''a/%'' @ [CHR 0x27] @ '' ORDER BY key''"
    using assms(2) by (simp add: QueryWithParams_qNew_def newQueries_def Sprintf_Prefix)
  have "DB_Query (QueryWithParams_qNew d ?q) s =
      (Return (Inr (map Inr (sort_key fst (filter (\<lambda>r. FilterKeyPrefix ''a/'' \<lparr>Key = fst r, Value = snd r\<rparr>) (rows s))), None)),
       s\<lparr>calls := calls s @ [CallQuery (QueryWithParams_qNew d ?q)]\<rparr>)"
    unfolding t using assms(1) pg_select_a_slash [of "tname s" "rows s"]
    by (simp add: DB_Query_def reach_def)
  then show ?thesis
    using t by (simp add: Datastore_Query_def RawQuery_def QueryWithParams_def scan_entries_ok
        ResultsWithEntries_def NaiveOrder_def queries_Query_def)
qed

lemma Query_client_filter:
  assumes "script s = []" "queries d = newQueries (tname s)"
  shows "Datastore_Query d \<lparr>Prefix = [], Filters = [f], Orders = [], Limit = l, Offset = off\<rparr> s =
     (Return (Inr (filter f (map (\<lambda>r. \<lparr>Key = fst r, Value = snd r\<rparr>) (rows s)))),
      s\<lparr>calls := calls s @ [CallQuery (''SELECT key, data FROM '' @ tname s)]\<rparr>)"
proof -
  have "DB_Query (Queries_Query (queries d)) s =
      (Return (Inr (map Inr (rows s), None)), s\<lparr>calls := calls s @ [CallQuery (queries_Query (tname s))]\<rparr>)"
    using assms by (simp add: DB_Query_def reach_def pg_select_all newQueries_def)
  then show ?thesis
    by (simp add: Datastore_Query_def RawQuery_def scan_entries_ok
        ResultsWithEntries_def NaiveOrder_def NaiveFilter_def queries_Query_def)
qed

lemma three_perms:
  assumes "set xs = {a, b, c}" "distinct xs" "a \<noteq> b" "a \<noteq> c" "b \<noteq> c"
  shows "xs \<in> set [[a, b, c], [a, c, b], [b, a, c], [b, c, a], [c, a, b], [c, b, a]]"
proof -
  have "length xs = card (set xs)"
    using assms(2) by (simp add: distinct_card)
  also have "\<dots> = 3"
    using assms by simp
  finally obtain x y z where xs: "xs = [x, y, z]"
    by (auto simp: numeral_3_eq_3 length_Suc_conv)
  have m: "x \<in> {a, b, c}" "y \<in> {a, b, c}" "z \<in> {a, b, c}"
    using xs assms(1) by auto
  have d: "x \<noteq> y" "x \<noteq> z" "y \<noteq> z"
    using xs assms(2) by auto
  from m d show ?thesis
    unfolding xs by (elim insertE emptyE) simp_all
qed

lemma perms_eval:
  "list_all
     (\<lambda>rs. map (\<lambda>r. \<lparr>Key = fst r, Value = snd r\<rparr>)
             (sort_key fst
               (filter (\<lambda>r. FilterKeyPrefix ''a/'' \<lparr>Key = fst r, Value = snd r\<rparr>) rs)) =
             [\<lparr>Key = ''a/1'', Value = ''v1''\<rparr>, \<lparr>Key = ''a/2'', Value = ''v2''\<rparr>]
        \<and> set (filter (FilterKeyPrefix ''a/'') (map (\<lambda>r. \<lparr>Key = fst r, Value = snd r\<rparr>) rs)) =
             {\<lparr>Key = ''a/1'', Value = ''v1''\<rparr>, \<lparr>Key = ''a/2'', Value = ''v2''\<rparr>}
        \<and> distinct (filter (FilterKeyPrefix ''a/'') (map (\<lambda>r. \<lparr>Key = fst r, Value = snd r\<rparr>) rs)))
     [[(''a/1'', ''v1''), (''a/2'', ''v2''), (''b/1'', ''v3'')],
      [(''a/1'', ''v1''), (''b/1'', ''v3''), (''a/2'', ''v2'')],
      [(''a/2'', ''v2''), (''a/1'', ''v1''), (''b/1'', ''v3'')],
      [(''a/2'', ''v2''), (''b/1'', ''v3''), (''a/1'', ''v1'')],
      [(''b/1'', ''v3''), (''a/1'', ''v1''), (''a/2'', ''v2'')],
      [(''b/1'', ''v3''), (''a/2'', ''v2''), (''a/1'', ''v1'')]]"
  by code_simp

text \<open>
  C4. On a healthy backend whose table is the store's and holds exactly the rows
  \<open>a/1: v1\<close>, \<open>a/2: v2\<close>, \<open>b/1: v3\<close>, in any physical order: \<open>Query\<close> with
  prefix \<open>a/\<close> sends the composed \<open>LIKE 'a/%'\<close> statement and returns the entries
  \<open>a/1: v1\<close>, \<open>a/2: v2\<close>; \<open>Query\<close> with no prefix and the client-side filter
  \<open>FilterKeyPrefix a/\<close> sends the bare scan and returns exactly the same two entries,
  each once (in the order the scan delivers them).
\<close>

theorem prefix_query_paths_agree:
  assumes "script s = []" and "queries d = newQueries (tname s)"
    and "set (rows s) = {(''a/1'', ''v1''), (''a/2'', ''v2''), (''b/1'', ''v3'')}"
    and "distinct (map fst (rows s))"
  shows "fst (Datastore_Query d
              \<lparr>Prefix = ''a/'', Filters = [], Orders = [], Limit = 0, Offset = 0\<rparr> s) =
           Return (Inr [\<lparr>Key = ''a/1'', Value = ''v1''\<rparr>, \<lparr>Key = ''a/2'', Value = ''v2''\<rparr>])
       \<and> calls (snd (Datastore_Query d
              \<lparr>Prefix = ''a/'', Filters = [], Orders = [], Limit = 0, Offset = 0\<rparr> s)) =
           calls s @ [CallQuery (''SELECT key, data FROM '' @ tname s @ '' WHERE key LIKE ''
                                 @ [CHR 0x27] @ ''a/%'' @ [CHR 0x27] @ '' ORDER BY key'')]
       \<and> (\<exists>es. fst (Datastore_Query d
                   \<lparr>Prefix = [], Filters = [FilterKeyPrefix ''a/''], Orders = [],
                    Limit = 0, Offset = 0\<rparr> s) = Return (Inr es)
              \<and> set es = {\<lparr>Key = ''a/1'', Value = ''v1''\<rparr>, \<lparr>Key = ''a/2'', Value = ''v2''\<rparr>}
              \<and> distinct es)
       \<and> calls (snd (Datastore_Query d
              \<lparr>Prefix = [], Filters = [FilterKeyPrefix ''a/''], Orders = [],
               Limit = 0, Offset = 0\<rparr> s)) =
           calls s @ [CallQuery (''SELECT key, data FROM '' @ tname s)]"
proof -
  let ?P = "\<lambda>rs. map (\<lambda>r. \<lparr>Key = fst r, Value = snd r\<rparr>)
             (sort_key fst
               (filter (\<lambda>r. FilterKeyPrefix ''a/'' \<lparr>Key = fst r, Value = snd r\<rparr>) rs)) =
             [\<lparr>Key = ''a/1'', Value = ''v1''\<rparr>, \<lparr>Key = ''a/2'', Value = ''v2''\<rparr>]
        \<and> set (filter (FilterKeyPrefix ''a/'') (map (\<lambda>r. \<lparr>Key = fst r, Value = snd r\<rparr>) rs)) =
             {\<lparr>Key = ''a/1'', Value = ''v1''\<rparr>, \<lparr>Key = ''a/2'', Value = ''v2''\<rparr>}
        \<and> distinct (filter (FilterKeyPrefix ''a/'') (map (\<lambda>r. \<lparr>Key = fst r, Value = snd r\<rparr>) rs))"
  have "distinct (rows s)"
    using assms(4) by (simp add: distinct_map)
  with assms(3) have mem: "rows s \<in> set
     [[(''a/1'', ''v1''), (''a/2'', ''v2''), (''b/1'', ''v3'')],
      [(''a/1'', ''v1''), (''b/1'', ''v3''), (''a/2'', ''v2'')],
      [(''a/2'', ''v2''), (''a/1'', ''v1''), (''b/1'', ''v3'')],
      [(''a/2'', ''v2''), (''b/1'', ''v3''), (''a/1'', ''v1'')],
      [(''b/1'', ''v3''), (''a/1'', ''v1''), (''a/2'', ''v2'')],
      [(''b/1'', ''v3''), (''a/2'', ''v2''), (''a/1'', ''v1'')]]"
    by (intro three_perms) simp_all
  have "?P (rows s)"
    by (rule bspec [OF perms_eval [unfolded list_all_iff] mem])
  then have ev1: "map (\<lambda>r. \<lparr>Key = fst r, Value = snd r\<rparr>)
             (sort_key fst
               (filter (\<lambda>r. FilterKeyPrefix ''a/'' \<lparr>Key = fst r, Value = snd r\<rparr>) (rows s))) =
             [\<lparr>Key = ''a/1'', Value = ''v1''\<rparr>, \<lparr>Key = ''a/2'', Value = ''v2''\<rparr>]"
    and ev2: "set (filter (FilterKeyPrefix ''a/'') (map (\<lambda>r. \<lparr>Key = fst r, Value = snd r\<rparr>) (rows s))) =
             {\<lparr>Key = ''a/1'', Value = ''v1''\<rparr>, \<lparr>Key = ''a/2'', Value = ''v2''\<rparr>}"
    and ev3: "distinct (filter (FilterKeyPrefix ''a/'') (map (\<lambda>r. \<lparr>Key = fst r, Value = snd r\<rparr>) (rows s)))"
    by blast+
  have push: "Datastore_Query d \<lparr>Prefix = ''a/'', Filters = [], Orders = [], Limit = 0, Offset = 0\<rparr> s =
     (Return (Inr [\<lparr>Key = ''a/1'', Value = ''v1''\<rparr>, \<lparr>Key = ''a/2'', Value = ''v2''\<rparr>]),
      s\<lparr>calls := calls s @ [CallQuery (''SELECT key, data FROM '' @ tname s @ '' WHERE key LIKE '' @ [CHR 0x27] @ ''a/%'' @ [CHR 0x27] @ '' ORDER BY key'')]\<rparr>)"
    unfolding Query_pushdown_a_slash [OF assms(1,2)] ev1 ..
  have client: "Datastore_Query d \<lparr>Prefix = [], Filters = [FilterKeyPrefix ''a/''], Orders = [], Limit = 0, Offset = 0\<rparr> s =
     (Return (Inr (filter (FilterKeyPrefix ''a/'') (map (\<lambda>r. \<lparr>Key = fst r, Value = snd r\<rparr>) (rows s)))),
      s\<lparr>calls := calls s @ [CallQuery (''SELECT key, data FROM '' @ tname s)]\<rparr>)"
    by (rule Query_client_filter [OF assms(1,2)])
  show ?thesis
    unfolding push client using ev2 ev3 by simp
qed

theorem prefix_query_paths_agree_witness:
  "fst (Datastore_Query ex_store
          \<lparr>Prefix = ''a/'', Filters = [], Orders = [], Limit = 0, Offset = 0\<rparr>
          (ex_db [(''a/2'', ''v2''), (''b/1'', ''v3''), (''a/1'', ''v1'')] [])) =
     Return (Inr [\<lparr>Key = ''a/1'', Value = ''v1''\<rparr>, \<lparr>Key = ''a/2'', Value = ''v2''\<rparr>])
   \<and> fst (Datastore_Query ex_store
          \<lparr>Prefix = [], Filters = [FilterKeyPrefix ''a/''], Orders = [], Limit = 0, Offset = 0\<rparr>
          (ex_db [(''a/2'', ''v2''), (''b/1'', ''v3''), (''a/1'', ''v1'')] [])) =
     Return (Inr [\<lparr>Key = ''a/2'', Value = ''v2''\<rparr>, \<lparr>Key = ''a/1'', Value = ''v1''\<rparr>])"
proof -
  let ?s = "ex_db [(''a/2'', ''v2''), (''b/1'', ''v3''), (''a/1'', ''v1'')] []"
  have h: "script ?s = []" "queries ex_store = newQueries (tname ?s)"
    "set (rows ?s) = {(''a/1'', ''v1''), (''a/2'', ''v2''), (''b/1'', ''v3'')}"
    "distinct (map fst (rows ?s))"
    by (auto simp: ex_db_def ex_store_def)
  have c: "fst (Datastore_Query ex_store
          \<lparr>Prefix = [], Filters = [FilterKeyPrefix ''a/''], Orders = [], Limit = 0, Offset = 0\<rparr> ?s) =
     Return (Inr [\<lparr>Key = ''a/2'', Value = ''v2''\<rparr>, \<lparr>Key = ''a/1'', Value = ''v1''\<rparr>])"
    by code_simp
  show ?thesis
    using prefix_query_paths_agree [OF h] c by blast
qed

text \<open>
  When the connection breaks while the rows of a scan are delivered, \<open>RawQuery\<close> returns
  the entries delivered so far with a nil error: \<open>rows.Err()\<close> is never consulted.
\<close>

lemma RawQuery_broken_connection:
  assumes "script s = Breaks n e # sc" "queries d = newQueries (tname s)" "Prefix q = []"
  shows "fst (RawQuery d q s) =
     Return (Inr (map (\<lambda>r. \<lparr>Key = fst r, Value = snd r\<rparr>) (take n (rows s))))"
  using assms
  by (simp add: RawQuery_def DB_Query_def reach_def newQueries_def pg_select_all
      scan_entries_ok ResultsWithEntries_def)

text \<open>
  Without a prefix, \<open>RawQuery\<close> sends the bare scan and nothing after it looks at the
  limit or the offset: whatever they are, the result is that of the same descriptor
  without them.
\<close>

lemma Query_no_prefix_ignores_window:
  "Prefix q = [] \<Longrightarrow>
   Datastore_Query d (q\<lparr>Limit := l, Offset := off\<rparr>) s = Datastore_Query d q s"
  by (simp add: Datastore_Query_def RawQuery_def ResultsWithEntries_def
      split: prod.splits go.splits sum.splits)

text \<open>
  C2, at a failing input. Over the three rows above, the descriptor with no prefix,
  limit 1 and offset 1 returns all three entries, from the bare scan; with the prefix
  \<open>a/\<close> the same limit and offset are sent to the backend and one entry, the second
  under the prefix, comes back.
\<close>

theorem Query_no_prefix_drops_limit_offset:
  "fst (Datastore_Query ex_store
          \<lparr>Prefix = [], Filters = [], Orders = [], Limit = 1, Offset = 1\<rparr>
          (ex_db [(''a/1'', ''v1''), (''a/2'', ''v2''), (''b/1'', ''v3'')] [])) =
     Return (Inr [\<lparr>Key = ''a/1'', Value = ''v1''\<rparr>, \<lparr>Key = ''a/2'', Value = ''v2''\<rparr>,
                  \<lparr>Key = ''b/1'', Value = ''v3''\<rparr>])
   \<and> calls (snd (Datastore_Query ex_store
          \<lparr>Prefix = [], Filters = [], Orders = [], Limit = 1, Offset = 1\<rparr>
          (ex_db [(''a/1'', ''v1''), (''a/2'', ''v2''), (''b/1'', ''v3'')] []))) =
     [CallQuery ''SELECT key, data FROM kv'']
   \<and> fst (Datastore_Query ex_store
          \<lparr>Prefix = ''a/'', Filters = [], Orders = [], Limit = 1, Offset = 1\<rparr>
          (ex_db [(''a/1'', ''v1''), (''a/2'', ''v2''), (''b/1'', ''v3'')] [])) =
     Return (Inr [\<lparr>Key = ''a/2'', Value = ''v2''\<rparr>])
   \<and> calls (snd (Datastore_Query ex_store
          \<lparr>Prefix = ''a/'', Filters = [], Orders = [], Limit = 1, Offset = 1\<rparr>
          (ex_db [(''a/1'', ''v1''), (''a/2'', ''v2''), (''b/1'', ''v3'')] []))) =
     [CallQuery (''SELECT key, data FROM kv WHERE key LIKE '' @ [CHR 0x27] @ ''a/%''
                 @ [CHR 0x27] @ '' ORDER BY key LIMIT 1 OFFSET 1'')]"
  by code_simp

end
